theory Spec2Isabelle
  imports Complex_Main
begin

section \<open>Numbers of the Python runtime\<close>

text \<open>
  A Python \<open>Decimal\<close> or \<open>float\<close> is either a finite exact value or one of the two
  infinities (\<open>Decimal('Infinity')\<close>, \<open>float('inf')\<close>). Finite values are carried as
  rationals; a float is a rational that happens to be a binary64 number.
\<close>

datatype xnum = Fin rat | PosInf | NegInf

type_synonym Decimal = xnum
type_synonym pyfloat = xnum

fun x_less :: "xnum \<Rightarrow> xnum \<Rightarrow> bool" where
  "x_less (Fin a) (Fin b) = (a < b)"
| "x_less NegInf NegInf = False"
| "x_less NegInf _ = True"
| "x_less _ NegInf = False"
| "x_less PosInf _ = False"
| "x_less _ PosInf = True"

text \<open>
  Rounding to the nearest integer, ties to even: the rounding of IEEE 754, of
  mpmath's \<open>round_nearest\<close> and of the default \<open>Decimal\<close> context.
\<close>

definition round_half_even :: "rat \<Rightarrow> int" where
  "round_half_even q =
     (let f = \<lfloor>q\<rfloor>; d = q - of_int f
      in if d < 1 / 2 then f else if 1 / 2 < d then f + 1
         else if even f then f else f + 1)"

definition pow_int :: "rat \<Rightarrow> int \<Rightarrow> rat" where
  "pow_int b e = (if 0 \<le> e then b ^ nat e else 1 / b ^ nat (- e))"

text \<open>\<open>ilog b n\<close> is the integer logarithm of \<open>n \<ge> 1\<close> to the base \<open>b \<ge> 2\<close>.\<close>

function ilog :: "int \<Rightarrow> int \<Rightarrow> int" where
  "ilog b n = (if b < 2 \<or> n < b then 0 else 1 + ilog b (n div b))"
  by pat_completeness auto
termination
  by (relation "measure (\<lambda>(b, n). nat n)") (auto intro: int_div_less_self)

declare ilog.simps [simp del]

text \<open>The exponent \<open>e\<close> with \<open>b ^ e \<le> q < b ^ (e + 1)\<close>, for \<open>q > 0\<close>.\<close>

definition floor_log :: "int \<Rightarrow> rat \<Rightarrow> int" where
  "floor_log b q =
     (if 1 \<le> q then ilog b \<lfloor>q\<rfloor>
      else let k = ilog b \<lfloor>1 / q\<rfloor>
           in if pow_int (of_int b) k = 1 / q then - k else - k - 1)"

text \<open>
  \<open>round_bits p\<close> rounds to \<open>p\<close> significant bits with an unbounded exponent (an
  mpmath number of precision \<open>p\<close>); \<open>round_digits n\<close> rounds to \<open>n\<close> significant
  decimal digits (a \<open>Decimal\<close> operation under precision \<open>n\<close>).
\<close>

definition round_bits :: "nat \<Rightarrow> rat \<Rightarrow> rat" where
  "round_bits p q =
     (if q = 0 then 0
      else let ulp = pow_int 2 (floor_log 2 \<bar>q\<bar> - (int p - 1))
           in of_int (round_half_even (q / ulp)) * ulp)"

definition round_digits :: "nat \<Rightarrow> rat \<Rightarrow> rat" where
  "round_digits n q =
     (if q = 0 then 0
      else let u = pow_int 10 (floor_log 10 \<bar>q\<bar> - (int n - 1))
           in of_int (round_half_even (q / u)) * u)"

text \<open>
  The binary64 number nearest to \<open>q\<close>: 53 significant bits, subnormal below
  \<open>2 ^ -1022\<close>, infinite from \<open>2 ^ 1024\<close> on.
\<close>

definition round_binary64 :: "rat \<Rightarrow> pyfloat" where
  "round_binary64 q =
     (if q = 0 then Fin 0
      else let ulp = pow_int 2 (max (floor_log 2 \<bar>q\<bar> - 52) (- 1074));
               r = of_int (round_half_even (q / ulp)) * ulp
           in if 2 ^ 1024 \<le> \<bar>r\<bar> then (if 0 < q then PosInf else NegInf) else Fin r)"

text \<open>
  \<open>str\<close> of a float prints the shortest decimal that reads back as the same float,
  the one nearest to it when two of that length do and, when both are equally near,
  the one whose last digit is even; \<open>shortest_at n\<close> looks for it among the decimals
  of \<open>n\<close> significant digits, and 17 digits always suffice.
\<close>

definition shortest_at :: "nat \<Rightarrow> rat \<Rightarrow> rat option" where
  "shortest_at n x =
     (let u = pow_int 10 (floor_log 10 x - (int n - 1));
          lo = of_int \<lfloor>x / u\<rfloor> * u;
          hi = lo + u;
          oklo = (round_binary64 lo = Fin x);
          okhi = (round_binary64 hi = Fin x)
      in if oklo \<and> okhi
         then Some (if x - lo < hi - x then lo
                    else if hi - x < x - lo then hi
                    else if even \<lfloor>x / u\<rfloor> then lo else hi)
         else if oklo then Some lo
         else if okhi then Some hi
         else None)"

fun shortest_from :: "nat \<Rightarrow> nat \<Rightarrow> rat \<Rightarrow> rat" where
  "shortest_from 0 n x = x"
| "shortest_from (Suc fuel) n x =
     (case shortest_at n x of Some d \<Rightarrow> d | None \<Rightarrow> shortest_from fuel (Suc n) x)"

definition float_repr_value :: "rat \<Rightarrow> rat" where
  "float_repr_value x =
     (if x = 0 then 0
      else if 0 < x then shortest_from 17 1 x
      else - shortest_from 17 1 (- x))"

text \<open>
  \<open>N(e, 50)\<close> of sympy evaluates a rational with four guard bits, at 173 bits, and
  rounds the outcome to 169 bits (the binary precision of 50 decimal digits);
  \<open>float\<close> of that number rounds it to 53 bits and hands it to \<open>ldexp\<close>;
  \<open>Decimal(str(f))\<close> reads the printed float back.
\<close>

definition N50 :: "rat \<Rightarrow> rat" where
  "N50 q = round_bits 169 (round_bits 173 q)"

definition float_of_Float :: "rat \<Rightarrow> pyfloat" where
  "float_of_Float f = round_binary64 (round_bits 53 f)"

definition Decimal_of_str_float :: "pyfloat \<Rightarrow> Decimal" where
  "Decimal_of_str_float f =
     (case f of Fin x \<Rightarrow> Fin (float_repr_value x) | PosInf \<Rightarrow> PosInf | NegInf \<Rightarrow> NegInf)"

definition float_of_Decimal :: "Decimal \<Rightarrow> pyfloat" where
  "float_of_Decimal d =
     (case d of Fin x \<Rightarrow> round_binary64 x | PosInf \<Rightarrow> PosInf | NegInf \<Rightarrow> NegInf)"

text \<open>
  Float arithmetic as \<open>lei_v.py\<close> uses it: a product and a sum with a positive
  finite constant, each correctly rounded, and Python's \<open>min(a, b)\<close>, which returns
  \<open>a\<close> unless \<open>b < a\<close>.
\<close>

definition fl_mul_const :: "pyfloat \<Rightarrow> rat \<Rightarrow> pyfloat" where
  "fl_mul_const x c =
     (case x of Fin a \<Rightarrow> round_binary64 (a * c) | PosInf \<Rightarrow> PosInf | NegInf \<Rightarrow> NegInf)"

definition fl_add_const :: "rat \<Rightarrow> pyfloat \<Rightarrow> pyfloat" where
  "fl_add_const c x =
     (case x of Fin a \<Rightarrow> round_binary64 (c + a) | PosInf \<Rightarrow> PosInf | NegInf \<Rightarrow> NegInf)"

definition py_min :: "xnum \<Rightarrow> xnum \<Rightarrow> xnum" where
  "py_min a b = (if x_less b a then b else a)"

datatype py_error =
  ValueError string
| InvalidOperation
| ZeroDivisionError
| HTTPException nat string

text \<open>
  \<open>Decimal\<close> subtraction under \<open>getcontext().prec = 100\<close>; the difference of two
  equal infinities signals \<open>InvalidOperation\<close>.
\<close>

fun dec_sub :: "Decimal \<Rightarrow> Decimal \<Rightarrow> py_error + Decimal" where
  "dec_sub (Fin a) (Fin b) = Inr (Fin (round_digits 100 (a - b)))"
| "dec_sub PosInf PosInf = Inl InvalidOperation"
| "dec_sub NegInf NegInf = Inl InvalidOperation"
| "dec_sub PosInf _ = Inr PosInf"
| "dec_sub NegInf _ = Inr NegInf"
| "dec_sub _ PosInf = Inr NegInf"
| "dec_sub _ NegInf = Inr PosInf"

section \<open>core/lei\_v.py: stages and thresholds\<close>

datatype DiagnosticStage =
  HEALTHY | STAGE_0 | STAGE_I | STAGE_II | STAGE_III | STAGE_IV

fun stage_value :: "DiagnosticStage \<Rightarrow> string" where
  "stage_value HEALTHY = ''healthy''"
| "stage_value STAGE_0 = ''stage_0_early''"
| "stage_value STAGE_I = ''stage_i_minimal''"
| "stage_value STAGE_II = ''stage_ii_mild''"
| "stage_value STAGE_III = ''stage_iii_moderate''"
| "stage_value STAGE_IV = ''stage_iv_severe''"

record LEIVThresholds =
  healthy_mean :: Decimal
  healthy_std :: Decimal
  stage_0_threshold :: Decimal
  advanced_threshold :: Decimal

definition default_thresholds :: LEIVThresholds where
  "default_thresholds =
     \<lparr> healthy_mean = Fin (21 / 10000), healthy_std = Fin (18 / 10000),
       stage_0_threshold = Fin (18 / 1000), advanced_threshold = Fin (8 / 100) \<rparr>"

definition classify :: "LEIVThresholds \<Rightarrow> Decimal \<Rightarrow> DiagnosticStage" where
  "classify th lei_v =
     (if x_less lei_v (stage_0_threshold th) then HEALTHY
      else if x_less lei_v (advanced_threshold th) then STAGE_0
      else if x_less lei_v (Fin (15 / 100)) then STAGE_I
      else if x_less lei_v (Fin (25 / 100)) then STAGE_II
      else if x_less lei_v (Fin (40 / 100)) then STAGE_III
      else STAGE_IV)"

section \<open>core/audit.py: the audit chain\<close>

text \<open>
  Values that are stored in a dictionary handed to the hasher. \<open>JDecimal\<close> and
  \<open>JFloat\<close> keep the number; the text Python prints for it is produced by the
  runtime's \<open>str\<close>.
\<close>

datatype jvalue =
  JNone
| JStr string
| JInt int
| JFloat pyfloat
| JDecimal Decimal
| JList "jvalue list"
| JDict "(string \<times> jvalue) list"

type_synonym pydict = "(string \<times> jvalue) list"

text \<open>A reading of the clock (\<open>datetime.utcnow()\<close>), in microseconds.\<close>

type_synonym datetime = nat

text \<open>
  The library functions the audit code calls: SHA-256 and HMAC-SHA-256 with their
  \<open>hexdigest\<close>, \<open>json.dumps(..., sort_keys=True, default=str)\<close>, \<open>str\<close> and
  \<open>datetime.isoformat\<close>. They are inputs of the model.
\<close>

record libs =
  sha256_hexdigest :: "string \<Rightarrow> string"
  hmac_sha256_hexdigest :: "string \<Rightarrow> string \<Rightarrow> string"
  json_dumps :: "jvalue \<Rightarrow> string"
  py_str :: "jvalue \<Rightarrow> string"
  isoformat :: "datetime \<Rightarrow> string"

record AuditEntry =
  entry_hash :: string
  previous_hash :: string
  timestamp :: datetime
  data_type :: jvalue
  data_summary :: string

record AuditHasher =
  secret_key :: "string option"
  chain :: "AuditEntry list"
  last_hash :: string

definition GENESIS_HASH :: string where
  "GENESIS_HASH = replicate 64 (CHR ''0'')"

definition CITATION :: string where
  "CITATION = ''Viduya Family Legacy Glyph '' @ [CHR 0xC2, CHR 0xA9] @ '' 2025''"

definition AuditHasher_init :: "string option \<Rightarrow> AuditHasher" where
  "AuditHasher_init key = \<lparr> secret_key = key, chain = [], last_hash = GENESIS_HASH \<rparr>"

definition serialize_for_hash :: "libs \<Rightarrow> pydict \<Rightarrow> string" where
  "serialize_for_hash L data = json_dumps L (JDict data)"

definition generate_summary :: "libs \<Rightarrow> pydict \<Rightarrow> string" where
  "generate_summary L data =
     (case (map_of data ''patient_id'', map_of data ''lei_v'') of
        (Some p, Some v) \<Rightarrow> ''LEI-V='' @ py_str L v @ '' for patient '' @ py_str L p
      | _ \<Rightarrow> ''Audit entry: '' @ py_str L (JList (map (\<lambda>kv. JStr (fst kv)) data)))"

text \<open>
  \<open>hash_computation\<close> reads the clock twice (\<open>t1\<close> for the payload, \<open>t2\<close> for the
  entry), returns the new hash and leaves the hasher with one more entry. A key
  that is \<open>None\<close> or empty is false in \<open>if self._secret_key\<close>.
\<close>

definition hash_computation ::
  "libs \<Rightarrow> AuditHasher \<Rightarrow> pydict \<Rightarrow> datetime \<Rightarrow> datetime \<Rightarrow> string \<times> AuditHasher" where
  "hash_computation L h data t1 t2 =
     (let payload = JDict [(''timestamp'', JStr (isoformat L t1)),
                           (''citation'', JStr CITATION),
                           (''data'', JStr (serialize_for_hash L data)),
                           (''previous_hash'', JStr (last_hash h))];
          serialized = json_dumps L payload;
          new_hash = (case secret_key h of
                        Some k \<Rightarrow> if k \<noteq> [] then hmac_sha256_hexdigest L k serialized
                                  else sha256_hexdigest L serialized
                      | None \<Rightarrow> sha256_hexdigest L serialized);
          entry = \<lparr> entry_hash = new_hash, previous_hash = last_hash h, timestamp = t2,
                    data_type = (case map_of data ''type'' of
                                   Some v \<Rightarrow> v | None \<Rightarrow> JStr ''computation''),
                    data_summary = generate_summary L data \<rparr>
      in (new_hash, h\<lparr> chain := chain h @ [entry], last_hash := new_hash \<rparr>))"

text \<open>The loop of \<open>verify_chain_integrity\<close>, with \<open>current_hash\<close> as accumulator.\<close>

fun verify_from :: "string \<Rightarrow> AuditEntry list \<Rightarrow> bool" where
  "verify_from current_hash [] = True"
| "verify_from current_hash (entry # rest) =
     (if previous_hash entry \<noteq> current_hash then False
      else verify_from (entry_hash entry) rest)"

definition verify_chain_integrity :: "AuditHasher \<Rightarrow> bool" where
  "verify_chain_integrity h =
     (if chain h = [] then True else verify_from GENESIS_HASH (chain h))"

text \<open>
  A sequence of calls on one hasher: each call brings its dictionary and its two
  clock readings; the hashes returned are collected in order.
\<close>

fun hash_computations ::
  "libs \<Rightarrow> AuditHasher \<Rightarrow> (pydict \<times> datetime \<times> datetime) list \<Rightarrow> string list \<times> AuditHasher" where
  "hash_computations L h [] = ([], h)"
| "hash_computations L h ((data, t1, t2) # calls) =
     (let (r, h') = hash_computation L h data t1 t2;
          (rs, h'') = hash_computations L h' calls
      in (r # rs, h''))"

text \<open>A SHA-256 \<open>hexdigest\<close>: 64 characters, each a lower-case hexadecimal digit.\<close>

definition is_hexdigest :: "string \<Rightarrow> bool" where
  "is_hexdigest s = (length s = 64 \<and> list_all (\<lambda>c. c \<in> set ''0123456789abcdef'') s)"

section \<open>core/lei\_v.py: the calculator\<close>

record LEIVResult =
  lei_v_value :: Decimal
  lei_v_symbolic :: rat
  stage :: DiagnosticStage
  confidence_percent :: pyfloat
  radial_distances :: "Decimal list"
  mean_radial :: Decimal
  variance_components :: "Decimal list"
  timestamp_r :: datetime
  patient_id :: string
  audit_hash :: string
  computation_metadata :: pydict

record LEIVCalculator =
  thresholds :: LEIVThresholds
  hasher :: AuditHasher

definition NUM_ELECTRODES :: nat where
  "NUM_ELECTRODES = 6"

definition LEIVCalculator_init :: LEIVCalculator where
  "LEIVCalculator_init = \<lparr> thresholds = default_thresholds, hasher = AuditHasher_init None \<rparr>"

definition calculate_confidence ::
  "LEIVThresholds \<Rightarrow> Decimal \<Rightarrow> DiagnosticStage \<Rightarrow> py_error + pyfloat" where
  "calculate_confidence th lei_v st =
     (if st = HEALTHY then
        (case dec_sub (stage_0_threshold th) lei_v of
           Inl e \<Rightarrow> Inl e
         | Inr m \<Rightarrow> Inr (py_min (Fin 99) (fl_add_const 80 (fl_mul_const (float_of_Decimal m) 500))))
      else if st = STAGE_0 then
        (case dec_sub lei_v (stage_0_threshold th) of
           Inl e \<Rightarrow> Inl e
         | Inr lo \<Rightarrow>
             (case dec_sub (advanced_threshold th) lei_v of
                Inl e \<Rightarrow> Inl e
              | Inr up \<Rightarrow>
                  Inr (py_min (Fin 95)
                        (fl_add_const 70
                          (fl_mul_const (py_min (float_of_Decimal lo) (float_of_Decimal up)) 200)))))
      else
        (case dec_sub lei_v (advanced_threshold th) of
           Inl e \<Rightarrow> Inl e
         | Inr m \<Rightarrow> Inr (py_min (Fin 99) (fl_add_const 85 (fl_mul_const (float_of_Decimal m) 50)))))"

text \<open>
  \<open>compute\<close> on exact rational radii, for which sympy's arithmetic and \<open>simplify\<close>
  are exact. \<open>t0\<close> is the clock reading taken for the result, \<open>t1\<close> and \<open>t2\<close> are the
  two readings of the hasher. Every \<open>raise\<close> leaves the calculator as it was.
\<close>

definition compute ::
  "libs \<Rightarrow> LEIVCalculator \<Rightarrow> rat list \<Rightarrow> string \<Rightarrow> int option \<Rightarrow> int option \<Rightarrow>
     datetime \<Rightarrow> datetime \<Rightarrow> datetime \<Rightarrow> (py_error + LEIVResult) \<times> LEIVCalculator" where
  "compute L c rs pid cycle_day v_caw_hour t0 t1 t2 =
     (if length rs \<noteq> NUM_ELECTRODES then (Inl (ValueError ''Expected 6 radial distances''), c)
      else
        let r_mean_symbolic = sum_list rs / of_nat NUM_ELECTRODES;
            variance_terms = map (\<lambda>r. (r - r_mean_symbolic)\<^sup>2) rs;
            lei_v_symbolic = sum_list variance_terms;
            lei_v_simplified = lei_v_symbolic;
            lei_v_float = float_of_Float (N50 lei_v_simplified);
            lei_v_decimal = Decimal_of_str_float lei_v_float;
            radial_decimals = map (\<lambda>r. Decimal_of_str_float (float_of_Float (N50 r))) rs;
            mean_decimal = Decimal_of_str_float (float_of_Float (N50 r_mean_symbolic));
            variance_decimals =
              map (\<lambda>v. Decimal_of_str_float (float_of_Float (N50 v))) variance_terms;
            st = classify (thresholds c) lei_v_decimal
        in case calculate_confidence (thresholds c) lei_v_decimal st of
             Inl e \<Rightarrow> (Inl e, c)
           | Inr confidence \<Rightarrow>
               let opt = (\<lambda>v. case v of None \<Rightarrow> JNone | Some i \<Rightarrow> JInt i);
                   metadata = [(''num_electrodes'', JInt (int NUM_ELECTRODES)),
                               (''cycle_day'', opt cycle_day),
                               (''v_caw_hour'', opt v_caw_hour),
                               (''computation_precision'', JStr ''symbolic''),
                               (''glyph_citation'', JStr CITATION)];
                   audit_data = [(''patient_id'', JStr pid),
                                 (''lei_v'', JStr (py_str L (JDecimal lei_v_decimal))),
                                 (''timestamp'', JStr (isoformat L t0)),
                                 (''radial_distances'',
                                    JList (map (\<lambda>r. JStr (py_str L (JDecimal r))) radial_decimals)),
                                 (''metadata'', JDict metadata)];
                   (new_hash, h') = hash_computation L (hasher c) audit_data t1 t2
               in (Inr \<lparr> lei_v_value = lei_v_decimal,
                          lei_v_symbolic = lei_v_simplified,
                          stage = st,
                          confidence_percent = confidence,
                          radial_distances = radial_decimals,
                          mean_radial = mean_decimal,
                          variance_components = variance_decimals,
                          timestamp_r = t0,
                          patient_id = pid,
                          audit_hash = new_hash,
                          computation_metadata = metadata \<rparr>,
                   c\<lparr> hasher := h' \<rparr>))"

section \<open>core/viduya\_glyph.py: the glyph\<close>

text \<open>
  A sympy expression is carried as the real number it denotes, so \<open>sympy.simplify\<close>
  is the identity and \<open>simplify(e) != 0\<close> is \<open>e \<noteq> 0\<close>.
\<close>

datatype GlyphLayer =
  TRIANGLE_HEXAGON | VESICA_HEXAGON | HIDDEN_STAR_TRIANGLE | REGENERATIVE_SPARK_LATTICE

record GlyphCoordinate =
  coord_x :: real
  coord_y :: real
  layer :: GlyphLayer
  name :: string
  electrode_index :: "nat option"

definition distance_from_origin :: "GlyphCoordinate \<Rightarrow> real" where
  "distance_from_origin c = sqrt ((coord_x c)\<^sup>2 + (coord_y c)\<^sup>2)"

text \<open>\<open>str\<close> of a natural number.\<close>

fun str_nat :: "nat \<Rightarrow> string" where
  "str_nat n =
     (if n < 10 then [char_of (48 + n)]
      else str_nat (n div 10) @ [char_of (48 + n mod 10)])"

declare str_nat.simps [simp del]

definition SQRT3 :: real where "SQRT3 = sqrt 3"
definition SQRT2 :: real where "SQRT2 = sqrt 2"
definition SQRT229 :: real where "SQRT229 = sqrt 229"

definition add_triangle_hexagon_points :: "GlyphCoordinate list" where
  "add_triangle_hexagon_points =
     [\<lparr> coord_x = SQRT3 / 4, coord_y = 0, layer = TRIANGLE_HEXAGON,
        name = ''TH_axial_pos'', electrode_index = None \<rparr>,
      \<lparr> coord_x = - SQRT3 / 4, coord_y = 0, layer = TRIANGLE_HEXAGON,
        name = ''TH_axial_neg'', electrode_index = None \<rparr>] @
     concat (map (\<lambda>sign_x. map (\<lambda>sign_y.
        \<lparr> coord_x = real_of_int sign_x * SQRT3 / 8,
          coord_y = real_of_int sign_y * (3 / 8),
          layer = TRIANGLE_HEXAGON,
          name = ''TH_offaxis_'' @ (if 0 < sign_x then ''+'' else ''-'') @ ''x_'' @
                 (if 0 < sign_y then ''+'' else ''-'') @ ''y'',
          electrode_index = None \<rparr>) [1, - 1 :: int]) [1, - 1 :: int])"

definition add_vesica_hexagon_points :: "GlyphCoordinate list" where
  "add_vesica_hexagon_points =
     (let x_base = 3 / 80; x_offset = SQRT229 / 80; y_val = - 37 / 80 + SQRT229 / 80
      in [\<lparr> coord_x = SQRT3 * (x_base + x_offset), coord_y = y_val, layer = VESICA_HEXAGON,
             name = ''VH_pos'', electrode_index = None \<rparr>,
          \<lparr> coord_x = SQRT3 * (x_base - x_offset), coord_y = y_val, layer = VESICA_HEXAGON,
             name = ''VH_neg'', electrode_index = None \<rparr>,
          \<lparr> coord_x = - SQRT3 * (x_base + x_offset), coord_y = y_val, layer = VESICA_HEXAGON,
             name = ''VH_mirror_pos'', electrode_index = None \<rparr>,
          \<lparr> coord_x = - SQRT3 * (x_base - x_offset), coord_y = y_val, layer = VESICA_HEXAGON,
             name = ''VH_mirror_neg'', electrode_index = None \<rparr>])"

definition add_hidden_star_triangle_points :: "GlyphCoordinate list" where
  "add_hidden_star_triangle_points =
     (let x_val = 7 / 40 - SQRT2 / 4; y_val = - 3 / 8
      in [\<lparr> coord_x = x_val, coord_y = y_val, layer = HIDDEN_STAR_TRIANGLE,
             name = ''HST_pos'', electrode_index = None \<rparr>,
          \<lparr> coord_x = - x_val, coord_y = y_val, layer = HIDDEN_STAR_TRIANGLE,
             name = ''HST_neg'', electrode_index = None \<rparr>])"

definition add_rsl_points :: "GlyphCoordinate list" where
  "add_rsl_points =
     (let radius = SQRT3 / 4
      in map (\<lambda>i. let angle = real i * pi / 3;
                      x = radius * cos angle;
                      y = radius * sin angle
                  in \<lparr> coord_x = x, coord_y = y, layer = REGENERATIVE_SPARK_LATTICE,
                       name = ''RSL_electrode_'' @ str_nat (i + 1),
                       electrode_index = Some (i + 1) \<rparr>) [0..<6])"

text \<open>The glyph is its list of coordinates, built in the order of the constructor.\<close>

definition build_all_coordinates :: "GlyphCoordinate list" where
  "build_all_coordinates =
     add_triangle_hexagon_points @ add_vesica_hexagon_points @
     add_hidden_star_triangle_points @ add_rsl_points"

definition get_rsl_electrodes :: "GlyphCoordinate list \<Rightarrow> GlyphCoordinate list" where
  "get_rsl_electrodes coordinates =
     filter (\<lambda>c. layer c = REGENERATIVE_SPARK_LATTICE) coordinates"

definition SYMMETRY_VERIFIED :: string where
  "SYMMETRY_VERIFIED =
     ''C'' @ [CHR 0xE2, CHR 0x82, CHR 0x83] @ '' '' @ [CHR 0xC3, CHR 0x97] @ '' D'' @
     [CHR 0xE2, CHR 0x82, CHR 0x86] @ '' symmetry verified. Citation: '' @ CITATION"

text \<open>
  The loop of \<open>verify_symmetry\<close> over \<open>enumerate(radii[1:], 1)\<close>; \<open>show\<close> prints an
  expression.
\<close>

fun radius_mismatch :: "(real \<Rightarrow> string) \<Rightarrow> real \<Rightarrow> nat \<Rightarrow> real list \<Rightarrow> string option" where
  "radius_mismatch show r0 i [] = None"
| "radius_mismatch show r0 i (r # rest) =
     (let diff = r - r0
      in if diff \<noteq> 0
         then Some (''Radius mismatch at electrode '' @ str_nat (i + 1) @ '': '' @ show diff)
         else radius_mismatch show r0 (i + 1) rest)"

definition verify_symmetry :: "(real \<Rightarrow> string) \<Rightarrow> GlyphCoordinate list \<Rightarrow> bool \<times> string" where
  "verify_symmetry show coordinates =
     (let rsl = get_rsl_electrodes coordinates
      in if length rsl \<noteq> 6
         then (False, ''Expected 6 RSL electrodes, found '' @ str_nat (length rsl))
         else case map distance_from_origin rsl of
                [] \<Rightarrow> (True, SYMMETRY_VERIFIED)
              | r0 # rest \<Rightarrow>
                  (case radius_mismatch show r0 1 rest of
                     Some msg \<Rightarrow> (False, msg)
                   | None \<Rightarrow> (True, SYMMETRY_VERIFIED)))"

section \<open>core/viduya\_constants.py: the integrity check\<close>

record FrozenCoordinate =
  fc_name :: string
  x_symbolic :: string
  y_symbolic :: string
  x_approx :: rat
  y_approx :: rat
  fc_layer :: string
  fc_electrode_index :: nat

definition TH_AXIAL_POS :: FrozenCoordinate where
  "TH_AXIAL_POS =
     \<lparr> fc_name = ''TH_axial_pos'', x_symbolic = ''sqrt(3)/4'',
       y_symbolic = ''0'',
       x_approx = 4330127018922193 / 10000000000000000, y_approx = 0,
       fc_layer = ''triangle_hexagon'', fc_electrode_index = 1 \<rparr>"

definition TH_AXIAL_NEG :: FrozenCoordinate where
  "TH_AXIAL_NEG =
     \<lparr> fc_name = ''TH_axial_neg'', x_symbolic = ''-sqrt(3)/4'',
       y_symbolic = ''0'',
       x_approx = - 4330127018922193 / 10000000000000000, y_approx = 0,
       fc_layer = ''triangle_hexagon'', fc_electrode_index = 4 \<rparr>"

definition TH_OFFAXIS_1 :: FrozenCoordinate where
  "TH_OFFAXIS_1 =
     \<lparr> fc_name = ''TH_offaxis_1'', x_symbolic = ''sqrt(3)/8'',
       y_symbolic = ''3/8'',
       x_approx = 21650635094610966 / 100000000000000000, y_approx = 375 / 1000,
       fc_layer = ''triangle_hexagon'', fc_electrode_index = 2 \<rparr>"

definition TH_OFFAXIS_2 :: FrozenCoordinate where
  "TH_OFFAXIS_2 =
     \<lparr> fc_name = ''TH_offaxis_2'', x_symbolic = ''-sqrt(3)/8'',
       y_symbolic = ''3/8'',
       x_approx = - 21650635094610966 / 100000000000000000, y_approx = 375 / 1000,
       fc_layer = ''triangle_hexagon'', fc_electrode_index = 3 \<rparr>"

definition TH_OFFAXIS_3 :: FrozenCoordinate where
  "TH_OFFAXIS_3 =
     \<lparr> fc_name = ''TH_offaxis_3'', x_symbolic = ''sqrt(3)/8'',
       y_symbolic = ''-3/8'',
       x_approx = 21650635094610966 / 100000000000000000, y_approx = - 375 / 1000,
       fc_layer = ''triangle_hexagon'', fc_electrode_index = 6 \<rparr>"

definition TH_OFFAXIS_4 :: FrozenCoordinate where
  "TH_OFFAXIS_4 =
     \<lparr> fc_name = ''TH_offaxis_4'', x_symbolic = ''-sqrt(3)/8'',
       y_symbolic = ''-3/8'',
       x_approx = - 21650635094610966 / 100000000000000000, y_approx = - 375 / 1000,
       fc_layer = ''triangle_hexagon'', fc_electrode_index = 5 \<rparr>"

definition VH_POS :: FrozenCoordinate where
  "VH_POS =
     \<lparr> fc_name = ''VH_pos'', x_symbolic = ''sqrt(3)*(3/80 + sqrt(229)/80)'',
       y_symbolic = ''-37/80 + sqrt(229)/80'',
       x_approx = 3926630275978783 / 10000000000000000, y_approx = - 27340925686527045 / 100000000000000000,
       fc_layer = ''vesica_hexagon'', fc_electrode_index = 0 \<rparr>"

definition VH_NEG :: FrozenCoordinate where
  "VH_NEG =
     \<lparr> fc_name = ''VH_neg'', x_symbolic = ''sqrt(3)*(3/80 - sqrt(229)/80)'',
       y_symbolic = ''-37/80 + sqrt(229)/80'',
       x_approx = - 26274319339287395 / 100000000000000000, y_approx = - 27340925686527045 / 100000000000000000,
       fc_layer = ''vesica_hexagon'', fc_electrode_index = 0 \<rparr>"

definition VH_MIRROR_POS :: FrozenCoordinate where
  "VH_MIRROR_POS =
     \<lparr> fc_name = ''VH_mirror_pos'', x_symbolic = ''-sqrt(3)*(3/80 + sqrt(229)/80)'',
       y_symbolic = ''-37/80 + sqrt(229)/80'',
       x_approx = - 3926630275978783 / 10000000000000000, y_approx = - 27340925686527045 / 100000000000000000,
       fc_layer = ''vesica_hexagon'', fc_electrode_index = 0 \<rparr>"

definition VH_MIRROR_NEG :: FrozenCoordinate where
  "VH_MIRROR_NEG =
     \<lparr> fc_name = ''VH_mirror_neg'', x_symbolic = ''-sqrt(3)*(3/80 - sqrt(229)/80)'',
       y_symbolic = ''-37/80 + sqrt(229)/80'',
       x_approx = 26274319339287395 / 100000000000000000, y_approx = - 27340925686527045 / 100000000000000000,
       fc_layer = ''vesica_hexagon'', fc_electrode_index = 0 \<rparr>"

definition HST_POS :: FrozenCoordinate where
  "HST_POS =
     \<lparr> fc_name = ''HST_pos'', x_symbolic = ''7/40 - sqrt(2)/4'',
       y_symbolic = ''-3/8'',
       x_approx = - 17855339059327378 / 100000000000000000, y_approx = - 375 / 1000,
       fc_layer = ''hidden_star_triangle'', fc_electrode_index = 0 \<rparr>"

definition HST_NEG :: FrozenCoordinate where
  "HST_NEG =
     \<lparr> fc_name = ''HST_neg'', x_symbolic = ''-(7/40 - sqrt(2)/4)'',
       y_symbolic = ''-3/8'',
       x_approx = 17855339059327378 / 100000000000000000, y_approx = - 375 / 1000,
       fc_layer = ''hidden_star_triangle'', fc_electrode_index = 0 \<rparr>"

definition RSL_ELECTRODE_1 :: FrozenCoordinate where
  "RSL_ELECTRODE_1 =
     \<lparr> fc_name = ''RSL_E1'', x_symbolic = ''sqrt(3)/4'',
       y_symbolic = ''0'',
       x_approx = 4330127018922193 / 10000000000000000, y_approx = 0,
       fc_layer = ''rsl'', fc_electrode_index = 1 \<rparr>"

definition RSL_ELECTRODE_2 :: FrozenCoordinate where
  "RSL_ELECTRODE_2 =
     \<lparr> fc_name = ''RSL_E2'', x_symbolic = ''sqrt(3)/8'',
       y_symbolic = ''3/8'',
       x_approx = 21650635094610966 / 100000000000000000, y_approx = 375 / 1000,
       fc_layer = ''rsl'', fc_electrode_index = 2 \<rparr>"

definition RSL_ELECTRODE_3 :: FrozenCoordinate where
  "RSL_ELECTRODE_3 =
     \<lparr> fc_name = ''RSL_E3'', x_symbolic = ''-sqrt(3)/8'',
       y_symbolic = ''3/8'',
       x_approx = - 21650635094610966 / 100000000000000000, y_approx = 375 / 1000,
       fc_layer = ''rsl'', fc_electrode_index = 3 \<rparr>"

definition RSL_ELECTRODE_4 :: FrozenCoordinate where
  "RSL_ELECTRODE_4 =
     \<lparr> fc_name = ''RSL_E4'', x_symbolic = ''-sqrt(3)/4'',
       y_symbolic = ''0'',
       x_approx = - 4330127018922193 / 10000000000000000, y_approx = 0,
       fc_layer = ''rsl'', fc_electrode_index = 4 \<rparr>"

definition RSL_ELECTRODE_5 :: FrozenCoordinate where
  "RSL_ELECTRODE_5 =
     \<lparr> fc_name = ''RSL_E5'', x_symbolic = ''-sqrt(3)/8'',
       y_symbolic = ''-3/8'',
       x_approx = - 21650635094610966 / 100000000000000000, y_approx = - 375 / 1000,
       fc_layer = ''rsl'', fc_electrode_index = 5 \<rparr>"

definition RSL_ELECTRODE_6 :: FrozenCoordinate where
  "RSL_ELECTRODE_6 =
     \<lparr> fc_name = ''RSL_E6'', x_symbolic = ''sqrt(3)/8'',
       y_symbolic = ''-3/8'',
       x_approx = 21650635094610966 / 100000000000000000, y_approx = - 375 / 1000,
       fc_layer = ''rsl'', fc_electrode_index = 6 \<rparr>"

definition ALL_COORDINATES :: "FrozenCoordinate list" where
  "ALL_COORDINATES =
     [TH_AXIAL_POS, TH_AXIAL_NEG, TH_OFFAXIS_1, TH_OFFAXIS_2, TH_OFFAXIS_3, TH_OFFAXIS_4,
      VH_POS, VH_NEG, VH_MIRROR_POS, VH_MIRROR_NEG, HST_POS, HST_NEG,
      RSL_ELECTRODE_1, RSL_ELECTRODE_2, RSL_ELECTRODE_3,
      RSL_ELECTRODE_4, RSL_ELECTRODE_5, RSL_ELECTRODE_6]"

definition VIDUYA_CONSTANTS_HASH :: string where
  "VIDUYA_CONSTANTS_HASH = ''a8f3b2c1d4e5f6a7b8c9d0e1f2a3b4c5d6e7f8a9b0c1d2e3f4a5b6c7d8e9f0a1''"

definition LEIV_THRESHOLD_STAGE_0 :: string where
  "LEIV_THRESHOLD_STAGE_0 = ''18/1000''"

definition LEIV_THRESHOLD_ADVANCED :: string where
  "LEIV_THRESHOLD_ADVANCED = ''8/100''"

text \<open>\<open>sep.join(parts)\<close>.\<close>

fun join :: "string \<Rightarrow> string list \<Rightarrow> string" where
  "join sep [] = []"
| "join sep [p] = p"
| "join sep (p # q # ps) = p @ sep @ join sep (q # ps)"

text \<open>
  The hash is computed over the table of coordinates and the two threshold
  literals; they are module constants in the source and arguments here, so that the
  check can be stated for every content of the table.
\<close>

definition compute_constants_hash ::
  "(string \<Rightarrow> string) \<Rightarrow> FrozenCoordinate list \<Rightarrow> string \<Rightarrow> string \<Rightarrow> string" where
  "compute_constants_hash sha256 all_coordinates stage_0 advanced =
     (let data = map (\<lambda>coord. fc_name coord @ '':'' @ x_symbolic coord @ '':'' @ y_symbolic coord)
                   all_coordinates
                 @ [''THRESHOLDS:'' @ stage_0 @ '':'' @ advanced];
          payload = join ''|'' data
      in sha256 payload)"

definition verify_constants_integrity ::
  "(string \<Rightarrow> string) \<Rightarrow> FrozenCoordinate list \<Rightarrow> string \<Rightarrow> string \<Rightarrow> bool \<times> string" where
  "verify_constants_integrity sha256 all_coordinates stage_0 advanced =
     (let computed = compute_constants_hash sha256 all_coordinates stage_0 advanced
      in (True, computed))"

section \<open>backend/routers/evg.py: the upload endpoint\<close>

text \<open>
  The file system maps a path to the content stored there. \<open>process\<close> stands for
  \<open>process_patient_edf\<close> and returns the message of the exception it raises or its
  result; \<open>validate\<close> is the construction of the response model, which may raise as
  well. \<open>tmp_path\<close> is the name the system picks for the temporary file.
\<close>

type_synonym filesystem = "string \<rightharpoonup> string"

fun endswith :: "string \<Rightarrow> string \<Rightarrow> bool" where
  "endswith s suffix = (length suffix \<le> length s \<and> drop (length s - length suffix) s = suffix)"

record 'r evg_state =
  files :: filesystem
  background_tasks :: "('r \<times> string) list option"

definition process_evg_file ::
  "(string \<Rightarrow> filesystem \<Rightarrow> string + 'r) \<Rightarrow> ('r \<Rightarrow> string + 'resp) \<Rightarrow> 'r evg_state \<Rightarrow>
     string \<Rightarrow> string \<Rightarrow> string \<Rightarrow> string option \<Rightarrow> (py_error + 'resp) \<times> 'r evg_state" where
  "process_evg_file process validate st filename content tmp_path notify_email =
     (if \<not> endswith filename ''.edf''
      then (Inl (HTTPException 400 ''Invalid file format. Please upload a .edf file.''), st)
      else
        let st1 = st\<lparr> files := (files st)(tmp_path \<mapsto> content) \<rparr>
        in case process tmp_path (files st1) of
             Inl msg \<Rightarrow> (Inl (HTTPException 500 (''Processing failed: '' @ msg)), st1)
           | Inr result \<Rightarrow>
               let st2 = st1\<lparr> files := (files st1)(tmp_path := None) \<rparr>;
                   st3 = (case (notify_email, background_tasks st2) of
                            (Some email, Some tasks) \<Rightarrow>
                              if email \<noteq> []
                              then st2\<lparr> background_tasks := Some (tasks @ [(result, email)]) \<rparr>
                              else st2
                          | _ \<Rightarrow> st2)
               in case validate result of
                    Inl msg \<Rightarrow> (Inl (HTTPException 500 (''Processing failed: '' @ msg)), st3)
                  | Inr response \<Rightarrow> (Inr response, st3))"

section \<open>ai\_integrations/bayesian\_fusion.py: the fusion engine\<close>

text \<open>
  Floats of the fusion engine are carried as exact rationals. A platform result is
  a dictionary; the keys the engine reads are the fields of \<open>platform_result\<close>, and
  \<open>None\<close> is a missing key.
\<close>

record platform_result =
  r_platform :: "string option"
  r_confidence :: "rat option"
  r_stage :: "string option"
  r_classification :: "string option"

record PlatformContribution =
  platform :: string
  raw_confidence :: rat
  concordance_with_leiv :: rat
  adjusted_weight :: rat
  contribution_to_final :: rat

record FusionResult =
  final_confidence :: rat
  final_diagnosis :: string
  lei_v_anchor_contribution :: rat
  platform_contributions :: "PlatformContribution list"
  prior_probability :: rat
  posterior_probability :: rat
  evidence_strength :: string
  audit_hash_f :: string
  citation :: string

definition STAGE_PRIORS :: "string \<rightharpoonup> rat" where
  "STAGE_PRIORS =
     map_of [(''healthy'', 5 / 100), (''stage_0_early'', 70 / 100),
             (''stage_i_minimal'', 85 / 100), (''stage_ii_mild'', 90 / 100),
             (''stage_iii_moderate'', 95 / 100), (''stage_iv_severe'', 98 / 100)]"

definition PLATFORM_RELIABILITY :: "string \<rightharpoonup> rat" where
  "PLATFORM_RELIABILITY =
     map_of [(''med_gemini'', 85 / 100), (''aidoc'', 90 / 100), (''tempus'', 75 / 100),
             (''viz_ai'', 80 / 100), (''openevidence'', 70 / 100)]"

text \<open>Strings: \<open>lower\<close>, \<open>upper\<close> and \<open>title\<close> on ASCII letters, and \<open>p in s\<close>.\<close>

definition is_upper :: "char \<Rightarrow> bool" where
  "is_upper c = (65 \<le> (of_char c :: nat) \<and> (of_char c :: nat) \<le> 90)"

definition is_lower :: "char \<Rightarrow> bool" where
  "is_lower c = (97 \<le> (of_char c :: nat) \<and> (of_char c :: nat) \<le> 122)"

definition lower_char :: "char \<Rightarrow> char" where
  "lower_char c = (if is_upper c then char_of ((of_char c :: nat) + 32) else c)"

definition upper_char :: "char \<Rightarrow> char" where
  "upper_char c = (if is_lower c then char_of ((of_char c :: nat) - 32) else c)"

definition lower :: "string \<Rightarrow> string" where
  "lower s = map lower_char s"

fun title_from :: "bool \<Rightarrow> string \<Rightarrow> string" where
  "title_from in_word [] = []"
| "title_from in_word (c # s) =
     (if is_upper c \<or> is_lower c
      then (if in_word then lower_char c else upper_char c) # title_from True s
      else c # title_from False s)"

definition title :: "string \<Rightarrow> string" where
  "title s = title_from False s"

fun startswith :: "string \<Rightarrow> string \<Rightarrow> bool" where
  "startswith s [] = True"
| "startswith [] (p # ps) = False"
| "startswith (c # s) (p # ps) = (c = p \<and> startswith s ps)"

fun py_in :: "string \<Rightarrow> string \<Rightarrow> bool" where
  "py_in p [] = (p = [])"
| "py_in p (c # s) = (startswith (c # s) p \<or> py_in p s)"

definition get_severity_level :: "string \<Rightarrow> int" where
  "get_severity_level stage_label =
     (let stage_lower = lower stage_label
      in if py_in ''healthy'' stage_lower \<or> py_in ''normal'' stage_lower then 0
         else if py_in ''stage_0'' stage_lower \<or> py_in ''early'' stage_lower \<or>
                 py_in ''minimal'' stage_lower then 1
         else if py_in ''stage_i'' stage_lower \<or> py_in ''mild'' stage_lower then 2
         else if py_in ''stage_ii'' stage_lower \<or> py_in ''moderate'' stage_lower then 3
         else if py_in ''stage_iii'' stage_lower \<or> py_in ''stage_iv'' stage_lower \<or>
                 py_in ''severe'' stage_lower then 4
         else 2)"

text \<open>\<open>result.get("stage", result.get("classification", ""))\<close>.\<close>

definition platform_stage :: "platform_result \<Rightarrow> string" where
  "platform_stage result =
     (case r_stage result of
        Some s \<Rightarrow> s
      | None \<Rightarrow> (case r_classification result of Some s \<Rightarrow> s | None \<Rightarrow> []))"

definition calculate_concordance :: "platform_result \<Rightarrow> string \<Rightarrow> rat" where
  "calculate_concordance result lei_v_stage =
     (if platform_stage result = [] then 5 / 10
      else let lei_v_severity = get_severity_level lei_v_stage;
               platform_severity = get_severity_level (platform_stage result);
               diff = \<bar>lei_v_severity - platform_severity\<bar>
           in if diff = 0 then 1
              else if diff = 1 then 7 / 10
              else if diff = 2 then 4 / 10
              else 2 / 10)"

definition calculate_leiv_weight :: "rat \<Rightarrow> rat \<Rightarrow> rat" where
  "calculate_leiv_weight lei_v confidence =
     (let threshold_distance = min \<bar>lei_v - 18 / 1000\<bar> \<bar>lei_v - 8 / 100\<bar>;
          clarity_factor = min 1 (threshold_distance * 20)
      in (confidence / 100) * (5 / 10 + 5 / 10 * clarity_factor))"

definition replace_char :: "char \<Rightarrow> char \<Rightarrow> string \<Rightarrow> string" where
  "replace_char a b s = map (\<lambda>c. if c = a then b else c) s"

definition determine_diagnosis :: "string \<Rightarrow> rat \<Rightarrow> string" where
  "determine_diagnosis lei_v_stage posterior =
     (let confidence_qualifier =
            (if 85 / 100 < posterior then ''high''
             else if 70 / 100 < posterior then ''moderate'' else ''low'')
      in title (replace_char (CHR ''_'') (CHR '' '') lei_v_stage) @ '' ('' @
         confidence_qualifier @ '' confidence) - LEI-V anchored'')"

definition platform_contribution :: "string \<Rightarrow> platform_result \<Rightarrow> PlatformContribution" where
  "platform_contribution lei_v_stage result =
     (let pf = (case r_platform result of Some p \<Rightarrow> p | None \<Rightarrow> ''unknown'');
          raw_conf = (case r_confidence result of Some c \<Rightarrow> c | None \<Rightarrow> 0) / 100;
          concordance = calculate_concordance result lei_v_stage;
          reliability = (case PLATFORM_RELIABILITY pf of Some w \<Rightarrow> w | None \<Rightarrow> 5 / 10);
          adjusted = reliability * concordance;
          platform_likelihood = raw_conf * adjusted
      in \<lparr> platform = pf, raw_confidence = raw_conf * 100,
           concordance_with_leiv = concordance, adjusted_weight = adjusted,
           contribution_to_final = platform_likelihood \<rparr>)"

text \<open>
  The loop over \<open>platform_results\<close>, with \<open>contributions\<close> and \<open>likelihood_product\<close>
  as accumulators.
\<close>

fun fuse_loop ::
  "string \<Rightarrow> platform_result list \<Rightarrow> PlatformContribution list \<Rightarrow> rat \<Rightarrow>
     PlatformContribution list \<times> rat" where
  "fuse_loop lei_v_stage [] contributions likelihood_product =
     (contributions, likelihood_product)"
| "fuse_loop lei_v_stage (result # rest) contributions likelihood_product =
     (let c = platform_contribution lei_v_stage result
      in fuse_loop lei_v_stage rest (contributions @ [c])
           (likelihood_product * (1 + contribution_to_final c)))"

text \<open>The value of the local \<open>unnormalized_posterior\<close> of \<open>fuse\<close>.\<close>

definition unnormalized_posterior ::
  "rat \<Rightarrow> string \<Rightarrow> rat \<Rightarrow> platform_result list \<Rightarrow> rat" where
  "unnormalized_posterior lei_v_val lei_v_stage lei_v_confidence platform_results =
     (let prior = (case STAGE_PRIORS lei_v_stage of Some p \<Rightarrow> p | None \<Rightarrow> 5 / 10);
          lei_v_contribution = prior * calculate_leiv_weight lei_v_val lei_v_confidence
      in lei_v_contribution * snd (fuse_loop lei_v_stage platform_results [] 1))"

text \<open>
  \<open>fuse\<close>: the division raises \<open>ZeroDivisionError\<close> when its denominator is zero, and
  the hasher is reached only after it.
\<close>

definition fuse ::
  "libs \<Rightarrow> AuditHasher \<Rightarrow> rat \<Rightarrow> string \<Rightarrow> rat \<Rightarrow> platform_result list \<Rightarrow>
     datetime \<Rightarrow> datetime \<Rightarrow> (py_error + FusionResult) \<times> AuditHasher" where
  "fuse L h lei_v_val lei_v_stage lei_v_confidence platform_results t1 t2 =
     (let prior = (case STAGE_PRIORS lei_v_stage of Some p \<Rightarrow> p | None \<Rightarrow> 5 / 10);
          lei_v_weight = calculate_leiv_weight lei_v_val lei_v_confidence;
          lei_v_contribution = prior * lei_v_weight;
          (contributions, likelihood_product) = fuse_loop lei_v_stage platform_results [] 1;
          unnormalized = lei_v_contribution * likelihood_product
      in if unnormalized + 1 / 10 = 0 then (Inl ZeroDivisionError, h)
         else
           let posterior = min (99 / 100) (unnormalized / (unnormalized + 1 / 10));
               final_conf = posterior * 100;
               diagnosis = determine_diagnosis lei_v_stage posterior;
               strength =
                 (if 3 \<le> length contributions \<and>
                     list_all (\<lambda>c. 7 / 10 < concordance_with_leiv c) contributions
                  then ''strong''
                  else if 2 \<le> length contributions \<and> 75 / 100 < posterior then ''moderate''
                  else ''weak'');
               audit_data = [(''lei_v'', JFloat (Fin lei_v_val)),
                             (''lei_v_stage'', JStr lei_v_stage),
                             (''posterior'', JFloat (Fin posterior)),
                             (''platforms'', JList (map (\<lambda>c. JStr (platform c)) contributions))];
               (new_hash, h') = hash_computation L h audit_data t1 t2
           in (Inr \<lparr> final_confidence = final_conf,
                      final_diagnosis = diagnosis,
                      lei_v_anchor_contribution = lei_v_contribution,
                      platform_contributions = contributions,
                      prior_probability = prior,
                      posterior_probability = posterior,
                      evidence_strength = strength,
                      audit_hash_f = new_hash,
                      citation = CITATION \<rparr>, h'))"

section \<open>hardware/rsl\_placement.py: electrode placement\<close>

text \<open>
  A Python float of the placement code: a binary64 number, an infinity, or NaN. A
  zero carries no sign.
\<close>

datatype f64 = Val xnum | NaN

fun x_neg :: "xnum \<Rightarrow> xnum" where
  "x_neg (Fin a) = Fin (- a)"
| "x_neg PosInf = NegInf"
| "x_neg NegInf = PosInf"

text \<open>The float a decimal literal of the source denotes.\<close>

definition f64_lit :: "rat \<Rightarrow> f64" where
  "f64_lit q = Val (round_binary64 q)"

text \<open>
  Float multiplication and division, correctly rounded; a product of zero and an
  infinity and a quotient of two infinities are NaN, and Python raises
  \<open>ZeroDivisionError\<close> for every division by zero.
\<close>

fun f_mul :: "f64 \<Rightarrow> f64 \<Rightarrow> f64" where
  "f_mul (Val (Fin a)) (Val (Fin b)) = Val (round_binary64 (a * b))"
| "f_mul (Val (Fin a)) (Val i) = (if a = 0 then NaN else Val (if 0 < a then i else x_neg i))"
| "f_mul (Val i) (Val (Fin b)) = (if b = 0 then NaN else Val (if 0 < b then i else x_neg i))"
| "f_mul (Val i) (Val j) = Val (if i = j then PosInf else NegInf)"
| "f_mul NaN y = NaN"
| "f_mul x NaN = NaN"

fun f_div :: "f64 \<Rightarrow> f64 \<Rightarrow> py_error + f64" where
  "f_div x (Val (Fin b)) =
     (if b = 0 then Inl ZeroDivisionError
      else case x of
             Val (Fin a) \<Rightarrow> Inr (Val (round_binary64 (a / b)))
           | Val i \<Rightarrow> Inr (Val (if 0 < b then i else x_neg i))
           | NaN \<Rightarrow> Inr NaN)"
| "f_div (Val (Fin a)) (Val j) = Inr (Val (Fin 0))"
| "f_div x y = Inr NaN"

text \<open>
  \<open>round(v, 2)\<close>: the float nearest to the exact value of \<open>v\<close> rounded to two
  decimals, ties to even; infinities and NaN are returned as they are.
\<close>

fun py_round2 :: "f64 \<Rightarrow> f64" where
  "py_round2 (Val (Fin a)) = Val (round_binary64 (of_int (round_half_even (a * 100)) / 100))"
| "py_round2 v = v"

text \<open>
  \<open>e.evalf()\<close> of sympy on the real number that \<open>e\<close> denotes: a number of 53 bits,
  evaluated with four guard bits and then rounded. The three functions below are
  \<open>round_half_even\<close>, \<open>floor_log\<close> and \<open>round_bits\<close> on a real argument.
\<close>

definition round_half_even_real :: "real \<Rightarrow> int" where
  "round_half_even_real x =
     (let f = \<lfloor>x\<rfloor>; d = x - of_int f
      in if d < 1 / 2 then f else if 1 / 2 < d then f + 1
         else if even f then f else f + 1)"

definition floor_log_real :: "int \<Rightarrow> real \<Rightarrow> int" where
  "floor_log_real b x =
     (if 1 \<le> x then ilog b \<lfloor>x\<rfloor>
      else let k = ilog b \<lfloor>1 / x\<rfloor>
           in if of_rat (pow_int (of_int b) k) = 1 / x then - k else - k - 1)"

definition round_bits_real :: "nat \<Rightarrow> real \<Rightarrow> rat" where
  "round_bits_real p x =
     (if x = 0 then 0
      else let ulp = pow_int 2 (floor_log_real 2 \<bar>x\<bar> - (int p - 1))
           in of_int (round_half_even_real (x / of_rat ulp)) * ulp)"

definition evalf15 :: "real \<Rightarrow> rat" where
  "evalf15 e = round_bits 53 (round_bits_real 57 e)"

text \<open>\<open>float(e.evalf())\<close>.\<close>

definition float_evalf :: "real \<Rightarrow> f64" where
  "float_evalf e = Val (float_of_Float (evalf15 e))"

record ElectrodePosition =
  electrode_number :: nat
  glyph_x :: real
  glyph_y :: real
  anatomical_x_cm :: f64
  anatomical_y_cm :: f64
  angle_degrees :: f64
  description :: string

record PatientAnthropometry =
  inter_asis_distance_cm :: f64
  pubis_umbilicus_distance_cm :: f64
  pa_patient_id :: string
  measurement_date :: string

definition GLYPH_RADIUS :: real where
  "GLYPH_RADIUS = sqrt 3 / 4"

definition DEFAULT_SCALE_FACTOR :: "py_error + f64" where
  "DEFAULT_SCALE_FACTOR = f_div (f64_lit 24) (float_evalf GLYPH_RADIUS)"

text \<open>
  \<open>GLYPH_RADIUS.evalf() * 2\<close> doubles the 53-bit number exactly before \<open>float\<close> is
  taken.
\<close>

definition get_scale_factor :: "PatientAnthropometry option \<Rightarrow> py_error + f64" where
  "get_scale_factor anthropometry =
     (case anthropometry of
        Some a \<Rightarrow>
          f_div (inter_asis_distance_cm a) (Val (float_of_Float (evalf15 GLYPH_RADIUS * 2)))
      | None \<Rightarrow> DEFAULT_SCALE_FACTOR)"

definition descriptions :: "string list" where
  "descriptions =
     [''Right lateral pelvic (3 o'' @ [CHR 0x27] @ ''clock)'',
      ''Right superior pelvic (1 o'' @ [CHR 0x27] @ ''clock)'',
      ''Left superior pelvic (11 o'' @ [CHR 0x27] @ ''clock)'',
      ''Left lateral pelvic (9 o'' @ [CHR 0x27] @ ''clock)'',
      ''Left inferior pelvic (7 o'' @ [CHR 0x27] @ ''clock)'',
      ''Right inferior pelvic (5 o'' @ [CHR 0x27] @ ''clock)'']"

text \<open>The body of the loop of \<open>_build_electrode_positions\<close> for index \<open>i\<close>.\<close>

definition electrode_position ::
  "PatientAnthropometry option \<Rightarrow> nat \<Rightarrow> py_error + ElectrodePosition" where
  "electrode_position anthropometry i =
     (let angle_rad = real i * pi / 3;
          angle_deg = float_evalf (angle_rad * 180 / pi);
          gx = GLYPH_RADIUS * cos angle_rad;
          gy = GLYPH_RADIUS * sin angle_rad
      in case get_scale_factor anthropometry of
           Inl e \<Rightarrow> Inl e
         | Inr scale \<Rightarrow>
             let anat_x = f_mul (float_evalf gx) scale;
                 anat_y = f_mul (float_evalf gy) scale
             in Inr \<lparr> electrode_number = i + 1, glyph_x = gx, glyph_y = gy,
                      anatomical_x_cm = py_round2 anat_x, anatomical_y_cm = py_round2 anat_y,
                      angle_degrees = angle_deg, description = descriptions ! i \<rparr>)"

text \<open>The loop: the electrodes are appended in order, and a raise ends it.\<close>

fun build_loop ::
  "PatientAnthropometry option \<Rightarrow> nat list \<Rightarrow> ElectrodePosition list \<Rightarrow>
     py_error + ElectrodePosition list" where
  "build_loop anthropometry [] electrodes = Inr electrodes"
| "build_loop anthropometry (i # rest) electrodes =
     (case electrode_position anthropometry i of
        Inl e \<Rightarrow> Inl e
      | Inr p \<Rightarrow> build_loop anthropometry rest (electrodes @ [p]))"

definition build_electrode_positions ::
  "PatientAnthropometry option \<Rightarrow> py_error + ElectrodePosition list" where
  "build_electrode_positions anthropometry = build_loop anthropometry [0..<6] []"

text \<open>
  The stored position of an electrode in centimetres and its distance from the
  centre, which exists when both coordinates are finite.
\<close>

definition stored_cm :: "ElectrodePosition \<Rightarrow> f64 \<times> f64" where
  "stored_cm e = (anatomical_x_cm e, anatomical_y_cm e)"

fun cm_distance :: "f64 \<times> f64 \<Rightarrow> real option" where
  "cm_distance (Val (Fin a), Val (Fin b)) = Some (sqrt ((of_rat a)\<^sup>2 + (of_rat b)\<^sup>2))"
| "cm_distance p = None"

section \<open>Auxiliary definitions for the proofs\<close>

text \<open>The hash the next entry has to carry as its \<open>previous_hash\<close>.\<close>

definition chain_end :: "string \<Rightarrow> AuditEntry list \<Rightarrow> string" where
  "chain_end g es = (if es = [] then g else entry_hash (last es))"

text \<open>
  Stand-ins for the library functions, on which the operations can be run: the
  digests are 64 hexadecimal digits chosen from the length of the input.
\<close>

definition demo_libs :: libs where
  "demo_libs =
     \<lparr> sha256_hexdigest = (\<lambda>s. replicate 64 (if length s < 150 then CHR ''a'' else CHR ''3'')),
       hmac_sha256_hexdigest =
         (\<lambda>k s. replicate 64 (if even (length k + length s) then CHR ''0'' else CHR ''f'')),
       json_dumps =
         (\<lambda>v. case v of
                 JDict kvs \<Rightarrow> concat (map fst kvs) @
                              concat (map (\<lambda>kv. case snd kv of JStr s \<Rightarrow> s | _ \<Rightarrow> []) kvs)
               | _ \<Rightarrow> []),
       py_str = (\<lambda>v. case v of JStr s \<Rightarrow> s | _ \<Rightarrow> ''?''),
       isoformat = (\<lambda>t. replicate t (CHR ''1'')) \<rparr>"

definition demo_calls :: "(pydict \<times> datetime \<times> datetime) list" where
  "demo_calls = [([(''patient_id'', JStr ''P1''), (''lei_v'', JStr ''0'')], 1, 2),
                 ([(''type'', JStr ''fusion'')], 3, 4)]"

text \<open>Three platform results that agree with the stage \<open>stage_0_early\<close>.\<close>

definition demo_aidoc :: platform_result where
  "demo_aidoc = \<lparr> r_platform = Some ''aidoc'', r_confidence = Some 85,
                   r_stage = Some ''stage_0_early'', r_classification = None \<rparr>"

definition demo_tempus :: platform_result where
  "demo_tempus = \<lparr> r_platform = Some ''tempus'', r_confidence = Some 80,
                    r_stage = None, r_classification = Some ''Early'' \<rparr>"

definition demo_unknown :: platform_result where
  "demo_unknown = \<lparr> r_platform = None, r_confidence = Some 92,
                     r_stage = Some ''minimal disease'', r_classification = None \<rparr>"

section \<open>Classification boundaries\<close>

lemma classify_Fin:
  "classify default_thresholds (Fin v) =
     (if v < 18 / 1000 then HEALTHY
      else if v < 8 / 100 then STAGE_0
      else if v < 15 / 100 then STAGE_I
      else if v < 25 / 100 then STAGE_II
      else if v < 40 / 100 then STAGE_III
      else STAGE_IV)"
  by (simp add: classify_def default_thresholds_def)

text \<open>
  C1. For every exact decimal value \<open>v\<close>, the classifier with the default thresholds
  assigns the stages with boundaries closed on the lower side: below 0.018 Healthy,
  from 0.018 and below 0.08 Stage-0, from 0.08 and below 0.15 Stage I, from 0.15 and
  below 0.25 Stage II, from 0.25 and below 0.40 Stage III, from 0.40 on Stage IV.
  In particular 0.018 is Stage-0 and 0.08 is Stage I.
\<close>

theorem classify_boundaries:
  "(v < 18 / 1000 \<longrightarrow> classify default_thresholds (Fin v) = HEALTHY) \<and>
   (18 / 1000 \<le> v \<and> v < 8 / 100 \<longrightarrow> classify default_thresholds (Fin v) = STAGE_0) \<and>
   (8 / 100 \<le> v \<and> v < 15 / 100 \<longrightarrow> classify default_thresholds (Fin v) = STAGE_I) \<and>
   (15 / 100 \<le> v \<and> v < 25 / 100 \<longrightarrow> classify default_thresholds (Fin v) = STAGE_II) \<and>
   (25 / 100 \<le> v \<and> v < 40 / 100 \<longrightarrow> classify default_thresholds (Fin v) = STAGE_III) \<and>
   (40 / 100 \<le> v \<longrightarrow> classify default_thresholds (Fin v) = STAGE_IV) \<and>
   classify default_thresholds (Fin (18 / 1000)) = STAGE_0 \<and>
   classify default_thresholds (Fin (8 / 100)) = STAGE_I"
  by (simp add: classify_Fin)

theorem classify_boundaries_witness:
  "classify default_thresholds (Fin (17 / 1000)) = HEALTHY \<and>
   classify default_thresholds (Fin (79 / 1000)) = STAGE_0 \<and>
   classify default_thresholds (Fin (8 / 100)) = STAGE_I \<and>
   classify default_thresholds (Fin (15 / 100)) = STAGE_II \<and>
   classify default_thresholds (Fin (25 / 100)) = STAGE_III \<and>
   classify default_thresholds (Fin (40 / 100)) = STAGE_IV"
  using classify_boundaries [of "17 / 1000"] classify_boundaries [of "79 / 1000"]
    classify_boundaries [of "8 / 100"] classify_boundaries [of "15 / 100"]
    classify_boundaries [of "25 / 100"] classify_boundaries [of "40 / 100"]
  by simp

section \<open>The number conversions\<close>

text \<open>
  The integer logarithm brackets its argument between two powers of the base, so
  \<open>floor_log\<close> is the exponent of the leading digit and a rounding to \<open>p\<close> bits is
  off by at most half a unit in the last place.
\<close>

lemma ilog_nonneg: "0 \<le> ilog b n"
  by (induction b n rule: ilog.induct) (subst ilog.simps, simp)

lemma ilog_bounds:
  "2 \<le> b \<Longrightarrow> 1 \<le> n \<Longrightarrow> b ^ nat (ilog b n) \<le> n \<and> n < b ^ nat (ilog b n + 1)"
proof (induction b n rule: ilog.induct)
  case (1 b n)
  show ?case
  proof (cases "n < b")
    case True
    then have "ilog b n = 0" by (simp add: ilog.simps)
    with True "1.prems" show ?thesis by simp
  next
    case False
    with "1.prems" have step: "ilog b n = 1 + ilog b (n div b)"
      by (subst ilog.simps) simp
    have d1: "1 \<le> n div b"
      using False "1.prems" pos_imp_zdiv_pos_iff [of b n] by simp
    define k where "k = nat (ilog b (n div b))"
    from "1.IH" False "1.prems" d1
    have ih: "b ^ k \<le> n div b" "n div b < b ^ nat (ilog b (n div b) + 1)"
      unfolding k_def by auto
    have k1: "nat (ilog b (n div b) + 1) = Suc k"
      unfolding k_def using ilog_nonneg [of b "n div b"] by simp
    have k2: "nat (ilog b n) = Suc k"
      unfolding step k_def using ilog_nonneg [of b "n div b"] by simp
    have k3: "nat (ilog b n + 1) = Suc (Suc k)"
      unfolding step k_def using ilog_nonneg [of b "n div b"] by simp
    have bpos: "0 < b" using "1.prems" by simp
    have dm: "b * (n div b) + n mod b = n" by (rule mult_div_mod_eq)
    have m0: "0 \<le> n mod b" and mb: "n mod b < b"
      using bpos by simp_all
    have "b * (n div b) \<le> n"
      using dm m0 by linarith
    moreover have "b * b ^ k \<le> b * (n div b)" using ih(1) bpos by simp
    ultimately have lo: "b ^ Suc k \<le> n" by simp
    have e: "b * (n div b + 1) = b * (n div b) + b" by (simp add: distrib_left)
    have "n < b * (n div b + 1)"
      unfolding e using dm mb by linarith
    moreover have "n div b + 1 \<le> b ^ Suc k" using ih(2) k1 by simp
    then have "b * (n div b + 1) \<le> b * b ^ Suc k" using bpos by simp
    ultimately have hi: "n < b ^ Suc (Suc k)" by simp
    from lo hi show ?thesis unfolding k2 k3 by simp
  qed
qed

lemma pow_int_of_nat: "pow_int b (int k) = b ^ k"
  by (simp add: pow_int_def)

lemma pow_int_neg: "pow_int b (- int k) = 1 / b ^ k"
  by (cases "k = 0") (simp_all add: pow_int_def)

lemma floor_log_bounds:
  assumes b: "2 \<le> b" and q: "0 < q"
  shows "pow_int (of_int b) (floor_log b q) \<le> q \<and> q < pow_int (of_int b) (floor_log b q + 1)"
proof (cases "1 \<le> q")
  case True
  then have n: "1 \<le> \<lfloor>q\<rfloor>" by simp
  define k where "k = nat (ilog b \<lfloor>q\<rfloor>)"
  have fl: "floor_log b q = int k"
    using True ilog_nonneg [of b "\<lfloor>q\<rfloor>"] by (simp add: floor_log_def k_def)
  from ilog_bounds [OF b n] have "b ^ k \<le> \<lfloor>q\<rfloor>" "\<lfloor>q\<rfloor> < b ^ nat (ilog b \<lfloor>q\<rfloor> + 1)"
    unfolding k_def by simp_all
  moreover have "nat (ilog b \<lfloor>q\<rfloor> + 1) = Suc k"
    unfolding k_def using ilog_nonneg [of b "\<lfloor>q\<rfloor>"] by simp
  ultimately have i: "b ^ k \<le> \<lfloor>q\<rfloor>" "\<lfloor>q\<rfloor> + 1 \<le> b ^ Suc k" by simp_all
  have "rat_of_int (b ^ k) \<le> of_int \<lfloor>q\<rfloor>" using i(1) by (simp only: of_int_le_iff)
  then have lo: "rat_of_int b ^ k \<le> q" by (simp add: le_floor_iff)
  have "rat_of_int (\<lfloor>q\<rfloor> + 1) \<le> of_int (b ^ Suc k)" using i(2) by (simp only: of_int_le_iff)
  moreover have "q < rat_of_int (\<lfloor>q\<rfloor> + 1)" by linarith
  ultimately have hi: "q < rat_of_int b ^ Suc k" by simp
  have "floor_log b q + 1 = int (Suc k)" unfolding fl by simp
  then show ?thesis unfolding fl using lo hi by (simp only: pow_int_of_nat)
next
  case False
  then have q1: "q < 1" by simp
  then have iq: "1 < 1 / q" using q by simp
  then have n: "1 \<le> \<lfloor>1 / q\<rfloor>" by simp
  define k where "k = nat (ilog b \<lfloor>1 / q\<rfloor>)"
  have ik: "ilog b \<lfloor>1 / q\<rfloor> = int k"
    unfolding k_def using ilog_nonneg [of b "\<lfloor>1 / q\<rfloor>"] by simp
  from ilog_bounds [OF b n] have "b ^ k \<le> \<lfloor>1 / q\<rfloor>" "\<lfloor>1 / q\<rfloor> < b ^ nat (ilog b \<lfloor>1 / q\<rfloor> + 1)"
    unfolding k_def by simp_all
  moreover have "nat (ilog b \<lfloor>1 / q\<rfloor> + 1) = Suc k"
    unfolding k_def using ilog_nonneg [of b "\<lfloor>1 / q\<rfloor>"] by simp
  ultimately have i: "b ^ k \<le> \<lfloor>1 / q\<rfloor>" "\<lfloor>1 / q\<rfloor> + 1 \<le> b ^ Suc k" by simp_all
  have "rat_of_int (b ^ k) \<le> of_int \<lfloor>1 / q\<rfloor>" using i(1) by (simp only: of_int_le_iff)
  then have lo: "rat_of_int b ^ k \<le> 1 / q" by (simp add: le_floor_iff)
  have "rat_of_int (\<lfloor>1 / q\<rfloor> + 1) \<le> of_int (b ^ Suc k)" using i(2) by (simp only: of_int_le_iff)
  moreover have "1 / q < rat_of_int (\<lfloor>1 / q\<rfloor> + 1)" by linarith
  ultimately have hi: "1 / q < rat_of_int b ^ Suc k" by simp
  have bp: "0 < rat_of_int b" using b by simp
  have bk: "0 < rat_of_int b ^ k" using bp by simp
  have bk1: "0 < rat_of_int b ^ Suc k" using bp by (rule zero_less_power)
  have lo': "q \<le> 1 / rat_of_int b ^ k"
    using lo q bk by (simp add: field_simps)
  have hi': "1 / rat_of_int b ^ Suc k < q"
    using hi q bk1 by (simp add: field_simps)
  show ?thesis
  proof (cases "rat_of_int b ^ k = 1 / q")
    case True
    then have fl: "floor_log b q = - int k"
      using q1 by (simp add: floor_log_def ik pow_int_of_nat Let_def)
    have qe: "q = 1 / rat_of_int b ^ k" unfolding True by simp
    have a: "pow_int (rat_of_int b) (- int k) = 1 / rat_of_int b ^ k"
      by (rule pow_int_neg)
    have "q < pow_int (rat_of_int b) (- int k + 1)"
    proof (cases k)
      case 0
      with q1 show ?thesis using b by (simp add: pow_int_def)
    next
      case (Suc m)
      then have "- int k + 1 = - int m" by simp
      moreover have "pow_int (rat_of_int b) (- int m) = 1 / rat_of_int b ^ m"
        by (rule pow_int_neg)
      moreover have "1 / rat_of_int b ^ Suc m < 1 / rat_of_int b ^ m"
        using bp b by (simp add: field_simps)
      ultimately show ?thesis using qe Suc by simp
    qed
    then show ?thesis unfolding fl a using qe by simp
  next
    case False
    then have fl: "floor_log b q = - int (Suc k)"
      using q1 by (simp add: floor_log_def ik pow_int_of_nat Let_def)
    have a: "pow_int (rat_of_int b) (- int (Suc k)) = 1 / rat_of_int b ^ Suc k"
      by (rule pow_int_neg)
    have c: "- int (Suc k) + 1 = - int k" by simp
    have a': "pow_int (rat_of_int b) (- int k) = 1 / rat_of_int b ^ k"
      by (rule pow_int_neg)
    have "q \<noteq> 1 / rat_of_int b ^ k"
    proof
      assume "q = 1 / rat_of_int b ^ k"
      then have "1 / q = rat_of_int b ^ k" by simp
      with False show False by simp
    qed
    with lo' have "q < 1 / rat_of_int b ^ k" by simp
    with hi' show ?thesis unfolding fl c a a' by simp
  qed
qed

lemma round_half_even_error: "\<bar>of_int (round_half_even q) - q\<bar> \<le> 1 / 2"
proof -
  have "0 \<le> q - of_int \<lfloor>q\<rfloor>" "q - of_int \<lfloor>q\<rfloor> < 1" by linarith+
  then show ?thesis
    by (auto simp: round_half_even_def Let_def)
qed

lemma pow_int_pos: "0 < b \<Longrightarrow> 0 < pow_int b e"
  by (simp add: pow_int_def)

lemma round_bits_error:
  "q \<noteq> 0 \<Longrightarrow> \<bar>round_bits p q - q\<bar> \<le> pow_int 2 (floor_log 2 \<bar>q\<bar> - (int p - 1)) / 2"
proof -
  assume q: "q \<noteq> 0"
  define ulp where "ulp = pow_int 2 (floor_log 2 \<bar>q\<bar> - (int p - 1))"
  have u: "0 < ulp" unfolding ulp_def by (rule pow_int_pos) simp
  have r: "round_bits p q = of_int (round_half_even (q / ulp)) * ulp"
    using q by (simp add: round_bits_def Let_def ulp_def)
  have "round_bits p q - q = (of_int (round_half_even (q / ulp)) - q / ulp) * ulp"
    unfolding r using u by (simp add: field_simps)
  then have "\<bar>round_bits p q - q\<bar> = \<bar>of_int (round_half_even (q / ulp)) - q / ulp\<bar> * ulp"
    using u by (simp add: abs_mult)
  also have "\<dots> \<le> (1 / 2) * ulp"
    using round_half_even_error [of "q / ulp"] u by (intro mult_right_mono) simp_all
  finally show ?thesis unfolding ulp_def by simp
qed

text \<open>Evaluation of the conversions on the numbers used below.\<close>

lemma ilog_base: "n < b \<Longrightarrow> ilog b n = 0"
  by (simp add: ilog.simps)

lemma ilog_step: "2 \<le> b \<Longrightarrow> b \<le> n \<Longrightarrow> ilog b n = 1 + ilog b (n div b)"
  by (subst ilog.simps) simp

lemma floor_rat_numeral:
  "\<lfloor>(numeral a :: rat) / numeral b\<rfloor> = numeral a div numeral b"
  using floor_divide_of_int_eq [where ?'a = rat, of "numeral a" "numeral b"] by simp

lemma N50_0: "N50 0 = 0"
  by (simp add: N50_def round_bits_def)

lemma float_of_Float_0: "float_of_Float 0 = Fin 0"
  by (simp add: float_of_Float_def round_bits_def round_binary64_def)

lemma Decimal_of_str_float_0: "Decimal_of_str_float (Fin 0) = Fin 0"
  by (simp add: Decimal_of_str_float_def float_repr_value_def)

lemma round_binary64_half: "round_binary64 (1 / 2) = Fin (1 / 2)"
  by (simp add: round_binary64_def floor_log_def ilog_base ilog_step pow_int_def
      round_half_even_def Let_def floor_rat_numeral)

lemma round_binary64_six_tenths: "round_binary64 (6 / 10) \<noteq> Fin (1 / 2)"
  by (simp add: round_binary64_def floor_log_def ilog_base ilog_step pow_int_def
      round_half_even_def Let_def floor_rat_numeral)

lemma float_repr_value_half: "float_repr_value (1 / 2) = 1 / 2"
  using round_binary64_half round_binary64_six_tenths
  by (simp add: float_repr_value_def numeral_nat shortest_at_def floor_log_def ilog_base
      pow_int_def Let_def floor_rat_numeral)

lemma float_of_N50_example: "float_of_Float (N50 (1 / 2 + 2 / 10 ^ 20)) = Fin (1 / 2)"
  by (simp add: float_of_Float_def N50_def round_bits_def floor_log_def ilog_base
      pow_int_def round_half_even_def Let_def floor_rat_numeral round_binary64_half)

lemma round_digits_example: "round_digits 50 (1 / 2 + 2 / 10 ^ 20) = 1 / 2 + 2 / 10 ^ 20"
  by (simp add: round_digits_def floor_log_def ilog_base pow_int_def round_half_even_def
      Let_def floor_rat_numeral)

section \<open>The LEI-V calculator\<close>

lemma calculate_confidence_Fin:
  "\<exists>f. calculate_confidence default_thresholds (Fin v) st = Inr f"
  by (simp add: calculate_confidence_def default_thresholds_def)

lemma compute_wrong_count:
  "length rs \<noteq> 6 \<Longrightarrow>
   compute L c rs pid cd vh t0 t1 t2 = (Inl (ValueError ''Expected 6 radial distances''), c)"
  by (simp add: compute_def NUM_ELECTRODES_def)

lemma compute_lei_v:
  assumes "length rs = 6" "thresholds c = default_thresholds"
    and "Decimal_of_str_float
           (float_of_Float (N50 (sum_list (map (\<lambda>r. (r - sum_list rs / 6)\<^sup>2) rs)))) = Fin v"
  shows "\<exists>res c'. compute L c rs pid cd vh t0 t1 t2 = (Inr res, c') \<and>
          lei_v_value res = Fin v \<and>
          lei_v_symbolic res = sum_list (map (\<lambda>r. (r - sum_list rs / 6)\<^sup>2) rs) \<and>
          stage res = classify default_thresholds (Fin v)"
proof -
  obtain f where
    f: "calculate_confidence default_thresholds (Fin v) (classify default_thresholds (Fin v)) = Inr f"
    using calculate_confidence_Fin by blast
  show ?thesis
    using assms f by (simp add: compute_def NUM_ELECTRODES_def Let_def split: prod.splits)
qed

text \<open>
  C2. For every list of radial distances whose length is not 6, \<open>compute\<close> fails with
  the invalid-input signal (\<open>ValueError\<close>) and leaves the audit chain as it was: no
  entry is appended and the last-hash pointer keeps its value.
\<close>

theorem compute_rejects_wrong_count:
  "length rs \<noteq> 6 \<Longrightarrow>
   fst (compute L c rs pid cd vh t0 t1 t2) = Inl (ValueError ''Expected 6 radial distances'') \<and>
   chain (hasher (snd (compute L c rs pid cd vh t0 t1 t2))) = chain (hasher c) \<and>
   last_hash (hasher (snd (compute L c rs pid cd vh t0 t1 t2))) = last_hash (hasher c) \<and>
   snd (compute L c rs pid cd vh t0 t1 t2) = c"
  by (simp add: compute_wrong_count)

theorem compute_rejects_wrong_count_witness:
  "length (replicate 5 (1 / 2 :: rat)) \<noteq> 6 \<and>
   fst (compute demo_libs LEIVCalculator_init (replicate 5 (1 / 2)) ''TEST-005'' None None 0 1 2) =
     Inl (ValueError ''Expected 6 radial distances'') \<and>
   chain (hasher (snd (compute demo_libs LEIVCalculator_init (replicate 5 (1 / 2))
     ''TEST-005'' None None 0 1 2))) = [] \<and>
   last_hash (hasher (snd (compute demo_libs LEIVCalculator_init (replicate 5 (1 / 2))
     ''TEST-005'' None None 0 1 2))) = GENESIS_HASH"
  using compute_rejects_wrong_count
    [of "replicate 5 (1 / 2)" demo_libs LEIVCalculator_init "''TEST-005''" None None 0 1 2]
  by (simp add: LEIVCalculator_init_def AuditHasher_init_def)

lemma lei_v_example_sum:
  "sum_list (map (\<lambda>r. (r - sum_list [3 / 2, 1 / 2, 1 + 1 / 10 ^ 10, 1 - 1 / 10 ^ 10, 1, 1] / 6)\<^sup>2)
      [3 / 2, 1 / 2, 1 + 1 / 10 ^ 10, 1 - 1 / 10 ^ 10, 1, 1 :: rat]) = 1 / 2 + 2 / 10 ^ 20"
  by (simp add: power2_eq_square)

text \<open>
  C3. The claim is that the stored \<open>lei_v_value\<close> is the exact sum of squares
  evaluated to 50 significant decimal digits. The code evaluates to that precision
  and then passes the number through \<open>float\<close> and \<open>str\<close>: for the radii
  \<open>3/2, 1/2, 1 + 1/10^10, 1 - 1/10^10, 1, 1\<close> the exact value is
  \<open>0.50000000000000000002\<close>, which 50 digits hold exactly, and the stored value is
  \<open>0.5\<close>.
\<close>

theorem compute_stores_double_precision:
  "\<exists>res c'. compute L LEIVCalculator_init
       [3 / 2, 1 / 2, 1 + 1 / 10 ^ 10, 1 - 1 / 10 ^ 10, 1, 1] pid cd vh t0 t1 t2 = (Inr res, c') \<and>
     lei_v_symbolic res = 1 / 2 + 2 / 10 ^ 20 \<and>
     round_digits 50 (lei_v_symbolic res) = 1 / 2 + 2 / 10 ^ 20 \<and>
     lei_v_value res = Fin (1 / 2) \<and>
     lei_v_value res \<noteq> Fin (round_digits 50 (lei_v_symbolic res))"
proof -
  let ?rs = "[3 / 2, 1 / 2, 1 + 1 / 10 ^ 10, 1 - 1 / 10 ^ 10, 1, 1 :: rat]"
  have d: "Decimal_of_str_float
      (float_of_Float (N50 (sum_list (map (\<lambda>r. (r - sum_list ?rs / 6)\<^sup>2) ?rs)))) = Fin (1 / 2)"
    unfolding lei_v_example_sum float_of_N50_example
    by (simp add: Decimal_of_str_float_def float_repr_value_half)
  have "length ?rs = 6" by simp
  moreover have "thresholds LEIVCalculator_init = default_thresholds"
    by (simp add: LEIVCalculator_init_def)
  ultimately obtain res c' where
    r: "compute L LEIVCalculator_init ?rs pid cd vh t0 t1 t2 = (Inr res, c')"
       "lei_v_value res = Fin (1 / 2)"
       "lei_v_symbolic res = sum_list (map (\<lambda>r. (r - sum_list ?rs / 6)\<^sup>2) ?rs)"
    using compute_lei_v [OF _ _ d, of LEIVCalculator_init L pid cd vh t0 t1 t2] by blast
  have s: "lei_v_symbolic res = 1 / 2 + 2 / 10 ^ 20" using r(3) lei_v_example_sum by simp
  have rd: "round_digits 50 (lei_v_symbolic res) = 1 / 2 + 2 / 10 ^ 20"
    unfolding s by (rule round_digits_example)
  have ne: "(1 / 2 :: rat) \<noteq> 1 / 2 + 2 / 10 ^ 20" by simp
  have "lei_v_value res \<noteq> Fin (round_digits 50 (lei_v_symbolic res))"
    unfolding rd r(2) using ne by (simp only: xnum.inject not_False_eq_True)
  with r(1) s rd r(2) show ?thesis by blast
qed

text \<open>
  C5. For six equal exact radii \<open>r\<close>, \<open>compute\<close> (with the default thresholds, on any
  hasher) returns a result whose \<open>lei_v_value\<close> is exactly 0 and whose stage is
  Healthy.
\<close>

theorem compute_equal_radii:
  "\<exists>res c'. compute L \<lparr> thresholds = default_thresholds, hasher = h \<rparr> (replicate 6 r)
        pid cd vh t0 t1 t2 = (Inr res, c') \<and>
     lei_v_symbolic res = 0 \<and> lei_v_value res = Fin 0 \<and> stage res = HEALTHY"
proof -
  have six: "replicate 6 r = [r, r, r, r, r, r]" by (simp add: numeral_nat)
  have z: "sum_list (map (\<lambda>x. (x - sum_list (replicate 6 r) / 6)\<^sup>2) (replicate 6 r)) = 0"
    unfolding six by simp
  have d: "Decimal_of_str_float (float_of_Float (N50 (sum_list
      (map (\<lambda>x. (x - sum_list (replicate 6 r) / 6)\<^sup>2) (replicate 6 r))))) = Fin 0"
    unfolding z by (simp add: N50_0 float_of_Float_0 Decimal_of_str_float_0)
  have "classify default_thresholds (Fin 0) = HEALTHY"
    by (simp add: classify_Fin)
  then show ?thesis
    using compute_lei_v [OF _ _ d,
        of "\<lparr> thresholds = default_thresholds, hasher = h \<rparr>" L pid cd vh t0 t1 t2] z
    by auto
qed

section \<open>The audit chain\<close>

lemma verify_from_append:
  "verify_from g (es @ [e]) = (verify_from g es \<and> previous_hash e = chain_end g es)"
  by (induction es arbitrary: g) (auto simp: chain_end_def)

lemma verify_from_nth:
  "verify_from g es \<Longrightarrow> n < length es \<Longrightarrow>
   previous_hash (es ! n) = (if n = 0 then g else entry_hash (es ! (n - 1)))"
proof (induction es arbitrary: g n)
  case Nil
  then show ?case by simp
next
  case (Cons e es)
  show ?case
  proof (cases n)
    case 0
    with Cons.prems show ?thesis by (simp split: if_splits)
  next
    case (Suc m)
    with Cons.prems have v: "verify_from (entry_hash e) es" and m: "m < length es"
      by (simp_all split: if_splits)
    from Cons.IH [OF v m] Suc show ?thesis
      by (cases m) simp_all
  qed
qed

lemma verify_from_tamper:
  "verify_from g es \<Longrightarrow> n < length es \<Longrightarrow> v \<noteq> previous_hash (es ! n) \<Longrightarrow>
   \<not> verify_from g (es[n := (es ! n)\<lparr>previous_hash := v\<rparr>])"
proof (induction es arbitrary: g n)
  case Nil
  then show ?case by simp
next
  case (Cons e es)
  show ?case
  proof (cases n)
    case 0
    with Cons.prems show ?thesis by (auto split: if_splits)
  next
    case (Suc m)
    with Cons.prems show ?thesis
      using Cons.IH [of "entry_hash e" m] by (auto split: if_splits)
  qed
qed

lemma hash_computation_step:
  "hash_computation L h d t1 t2 = (r, h') \<Longrightarrow>
   \<exists>e. chain h' = chain h @ [e] \<and> previous_hash e = last_hash h \<and> entry_hash e = r \<and>
       last_hash h' = r \<and> secret_key h' = secret_key h"
  by (auto simp: hash_computation_def Let_def)

lemma hash_computation_digest:
  "\<forall>s. is_hexdigest (sha256_hexdigest L s) \<Longrightarrow>
   \<forall>k s. is_hexdigest (hmac_sha256_hexdigest L k s) \<Longrightarrow>
   is_hexdigest (fst (hash_computation L h d t1 t2))"
  by (auto simp: hash_computation_def Let_def split: option.splits)

lemma hash_computations_run:
  "hash_computations L h calls = (rs, h') \<Longrightarrow>
   \<exists>news. chain h' = chain h @ news \<and> length news = length calls \<and>
     map entry_hash news = rs \<and> verify_from (last_hash h) news \<and>
     last_hash h' = chain_end (last_hash h) news"
proof (induction calls arbitrary: h rs h')
  case Nil
  then show ?case by (simp add: chain_end_def)
next
  case (Cons c calls)
  obtain d t1 t2 where c: "c = (d, t1, t2)" by (cases c) auto
  obtain r h1 where s: "hash_computation L h d t1 t2 = (r, h1)" by fastforce
  obtain rs1 h2 where t: "hash_computations L h1 calls = (rs1, h2)" by fastforce
  from Cons.prems c s t have eq: "rs = r # rs1" "h' = h2" by simp_all
  from hash_computation_step [OF s] obtain e where
    e: "chain h1 = chain h @ [e]" "previous_hash e = last_hash h" "entry_hash e = r"
       "last_hash h1 = r" by blast
  from Cons.IH [OF t] obtain news where
    n: "chain h2 = chain h1 @ news" "length news = length calls" "map entry_hash news = rs1"
       "verify_from (last_hash h1) news" "last_hash h2 = chain_end (last_hash h1) news" by blast
  have "chain h' = chain h @ (e # news)" using e n eq by simp
  moreover have "length (e # news) = length (c # calls)" using n by simp
  moreover have "map entry_hash (e # news) = rs" using e n eq by simp
  moreover have "verify_from (last_hash h) (e # news)" using e n by simp
  moreover have "last_hash h' = chain_end (last_hash h) (e # news)"
    using e n eq by (simp add: chain_end_def)
  ultimately show ?case by blast
qed

lemma hash_computations_digests:
  "\<forall>s. is_hexdigest (sha256_hexdigest L s) \<Longrightarrow>
   \<forall>k s. is_hexdigest (hmac_sha256_hexdigest L k s) \<Longrightarrow>
   hash_computations L h calls = (rs, h') \<Longrightarrow> list_all is_hexdigest rs"
proof (induction calls arbitrary: h rs h')
  case Nil
  then show ?case by simp
next
  case (Cons c calls)
  obtain d t1 t2 where c: "c = (d, t1, t2)" by (cases c) auto
  obtain r h1 where s: "hash_computation L h d t1 t2 = (r, h1)" by fastforce
  obtain rs1 h2 where t: "hash_computations L h1 calls = (rs1, h2)" by fastforce
  from Cons.prems c s t have eq: "rs = r # rs1" by simp
  have "is_hexdigest r"
    using hash_computation_digest [OF Cons.prems(1) Cons.prems(2), of h d t1 t2] s by simp
  moreover have "list_all is_hexdigest rs1"
    using Cons.IH [OF Cons.prems(1) Cons.prems(2) t] .
  ultimately show ?case using eq by simp
qed

lemma hash_computations_append:
  "hash_computations L h (cs @ ds) =
     (let (rs, h1) = hash_computations L h cs; (rs', h2) = hash_computations L h1 ds
      in (rs @ rs', h2))"
  by (induction cs arbitrary: h) (auto simp: Let_def split: prod.splits)

text \<open>
  C4. For every sequence of \<open>hash_computation\<close> calls on a freshly constructed hasher
  (SHA-256 and HMAC returning 64 hexadecimal digits): the first entry's
  \<open>previous_hash\<close> is the genesis value of 64 zeros and every later entry's
  \<open>previous_hash\<close> is the \<open>entry_hash\<close> of the entry before it; every returned hash
  is a 64-digit hexadecimal digest, and is the hash of the entry appended; the chain
  after the first \<open>m\<close> calls is the first \<open>m\<close> entries of the final chain, so no
  entry is removed or changed; \<open>verify_chain_integrity\<close> holds of the result, and
  fails whenever the \<open>previous_hash\<close> of one entry is replaced by another value.
\<close>

theorem audit_chain_invariants:
  assumes sha: "\<forall>s. is_hexdigest (sha256_hexdigest L s)"
    and hmac: "\<forall>k s. is_hexdigest (hmac_sha256_hexdigest L k s)"
    and run: "hash_computations L (AuditHasher_init key) calls = (hashes, h)"
  shows "length (chain h) = length calls \<and>
    (\<forall>n < length (chain h).
        previous_hash (chain h ! n) =
          (if n = 0 then replicate 64 (CHR ''0'') else entry_hash (chain h ! (n - 1)))) \<and>
    hashes = map entry_hash (chain h) \<and>
    list_all is_hexdigest hashes \<and>
    (\<forall>m \<le> length calls.
        chain (snd (hash_computations L (AuditHasher_init key) (take m calls))) = take m (chain h)) \<and>
    verify_chain_integrity h \<and>
    (\<forall>n < length (chain h). \<forall>v. v \<noteq> previous_hash (chain h ! n) \<longrightarrow>
        \<not> verify_chain_integrity (h\<lparr>chain := (chain h)[n := (chain h ! n)\<lparr>previous_hash := v\<rparr>]\<rparr>))"
proof -
  let ?h0 = "AuditHasher_init key"
  have h0: "chain ?h0 = []" "last_hash ?h0 = GENESIS_HASH"
    by (simp_all add: AuditHasher_init_def)
  from hash_computations_run [OF run] h0 obtain news where
    n: "chain h = news" "length news = length calls" "map entry_hash news = hashes"
       "verify_from GENESIS_HASH news" by auto
  have len: "length (chain h) = length calls" using n by simp
  have link: "\<forall>n < length (chain h).
        previous_hash (chain h ! n) =
          (if n = 0 then replicate 64 (CHR ''0'') else entry_hash (chain h ! (n - 1)))"
    using verify_from_nth [OF n(4)] n(1) by (simp add: GENESIS_HASH_def)
  have hs: "hashes = map entry_hash (chain h)" using n by simp
  have dig: "list_all is_hexdigest hashes"
    using hash_computations_digests [OF sha hmac run] .
  have pre: "\<forall>m \<le> length calls.
        chain (snd (hash_computations L ?h0 (take m calls))) = take m (chain h)"
  proof (intro allI impI)
    fix m assume m: "m \<le> length calls"
    obtain rs1 h1 where a: "hash_computations L ?h0 (take m calls) = (rs1, h1)" by fastforce
    obtain rs2 h2 where b: "hash_computations L h1 (drop m calls) = (rs2, h2)" by fastforce
    have "hash_computations L ?h0 (take m calls @ drop m calls) = (rs1 @ rs2, h2)"
      unfolding hash_computations_append [of L ?h0 "take m calls" "drop m calls"]
      using a b by simp
    with run have h2: "h2 = h" by simp
    from hash_computations_run [OF a] h0 m have c1: "length (chain h1) = m" by auto
    from hash_computations_run [OF b] h2 obtain more where "chain h = chain h1 @ more" by auto
    with c1 have "take m (chain h) = chain h1" by simp
    with a show "chain (snd (hash_computations L ?h0 (take m calls))) = take m (chain h)"
      by simp
  qed
  have ok: "verify_chain_integrity h"
    using n by (simp add: verify_chain_integrity_def)
  have tamper: "\<forall>n < length (chain h). \<forall>v. v \<noteq> previous_hash (chain h ! n) \<longrightarrow>
        \<not> verify_chain_integrity (h\<lparr>chain := (chain h)[n := (chain h ! n)\<lparr>previous_hash := v\<rparr>]\<rparr>)"
  proof (intro allI impI)
    fix k v assume k: "k < length (chain h)" and v: "v \<noteq> previous_hash (chain h ! k)"
    have "\<not> verify_from GENESIS_HASH ((chain h)[k := (chain h ! k)\<lparr>previous_hash := v\<rparr>])"
      using verify_from_tamper [of GENESIS_HASH "chain h" k v] n k v by simp
    moreover have "(chain h)[k := (chain h ! k)\<lparr>previous_hash := v\<rparr>] \<noteq> []"
      using k by auto
    ultimately show
      "\<not> verify_chain_integrity (h\<lparr>chain := (chain h)[k := (chain h ! k)\<lparr>previous_hash := v\<rparr>]\<rparr>)"
      by (simp add: verify_chain_integrity_def)
  qed
  from len link hs dig pre ok tamper show ?thesis by blast
qed

lemma demo_libs_sha: "\<forall>s. is_hexdigest (sha256_hexdigest demo_libs s)"
  by (simp add: demo_libs_def is_hexdigest_def list_all_iff)

lemma demo_libs_hmac: "\<forall>k s. is_hexdigest (hmac_sha256_hexdigest demo_libs k s)"
  by (simp add: demo_libs_def is_hexdigest_def list_all_iff)

theorem audit_chain_invariants_witness:
  "(\<forall>s. is_hexdigest (sha256_hexdigest demo_libs s)) \<and>
   (\<forall>k s. is_hexdigest (hmac_sha256_hexdigest demo_libs k s)) \<and>
   (\<exists>h. hash_computations demo_libs (AuditHasher_init None) demo_calls =
           ([replicate 64 (CHR ''3''), replicate 64 (CHR ''a'')], h) \<and>
        length (chain h) = 2 \<and>
        previous_hash (chain h ! 0) = replicate 64 (CHR ''0'') \<and>
        previous_hash (chain h ! 1) = entry_hash (chain h ! 0) \<and>
        verify_chain_integrity h \<and>
        \<not> verify_chain_integrity
            (h\<lparr>chain := (chain h)[1 := (chain h ! 1)\<lparr>previous_hash := replicate 64 (CHR ''0'')\<rparr>]\<rparr>))"
proof -
  obtain h where run: "hash_computations demo_libs (AuditHasher_init None) demo_calls =
           ([replicate 64 (CHR ''3''), replicate 64 (CHR ''a'')], h)"
    by (simp add: demo_calls_def hash_computation_def demo_libs_def serialize_for_hash_def
        generate_summary_def AuditHasher_init_def GENESIS_HASH_def CITATION_def Let_def)
  note t = audit_chain_invariants [OF demo_libs_sha demo_libs_hmac run]
  have l: "length (chain h) = 2" using t by (simp add: demo_calls_def)
  have m: "map entry_hash (chain h) = [replicate 64 (CHR ''3''), replicate 64 (CHR ''a'')]"
    using t by simp
  have "map entry_hash (chain h) ! 0 = entry_hash (chain h ! 0)"
    using l by (intro nth_map) simp
  with m have e0: "entry_hash (chain h ! 0) = replicate 64 (CHR ''3'')"
    by simp
  have p1: "previous_hash (chain h ! 1) = entry_hash (chain h ! 0)" using t l by simp
  have "replicate 64 (CHR ''0'') \<noteq> previous_hash (chain h ! 1)"
    unfolding p1 e0 by simp
  with t l show ?thesis using run demo_libs_sha demo_libs_hmac by auto
qed

section \<open>The glyph\<close>

lemma polar_distance: "sqrt ((r * cos a)\<^sup>2 + (r * sin a)\<^sup>2) = \<bar>r\<bar>"
proof -
  have "(r * cos a)\<^sup>2 + (r * sin a)\<^sup>2 = r\<^sup>2 * ((cos a)\<^sup>2 + (sin a)\<^sup>2)"
    by (simp only: power_mult_distrib distrib_left)
  also have "\<dots> = r\<^sup>2" by (simp only: sin_cos_squared_add2 mult_1_right)
  finally show ?thesis by simp
qed

lemma rsl_point_distance:
  "distance_from_origin \<lparr> coord_x = SQRT3 / 4 * cos a, coord_y = SQRT3 / 4 * sin a,
      layer = l, name = n, electrode_index = e \<rparr> = sqrt 3 / 4"
  using polar_distance [of "SQRT3 / 4" a]
  by (simp add: distance_from_origin_def SQRT3_def)

lemma get_rsl_electrodes_build: "get_rsl_electrodes build_all_coordinates = add_rsl_points"
  by (simp add: get_rsl_electrodes_def build_all_coordinates_def add_triangle_hexagon_points_def
      add_vesica_hexagon_points_def add_hidden_star_triangle_points_def add_rsl_points_def
      Let_def)

lemma rsl_radii: "map distance_from_origin add_rsl_points = replicate 6 (sqrt 3 / 4)"
  by (simp only: add_rsl_points_def Let_def map_map comp_def rsl_point_distance
      map_replicate_const length_upt diff_zero)

text \<open>
  C6. The six RSL electrodes are the points
  \<open>(sqrt 3 / 4 * cos (i * pi / 3), sqrt 3 / 4 * sin (i * pi / 3))\<close> for
  \<open>i = 0, \<dots>, 5\<close>; each of them lies at distance \<open>sqrt 3 / 4\<close> from the origin,
  so that any two radii differ by zero, and \<open>verify_symmetry\<close> reports success.
\<close>

theorem rsl_electrodes_equidistant:
  "map (\<lambda>c. (coord_x c, coord_y c)) (get_rsl_electrodes build_all_coordinates) =
     map (\<lambda>i. (sqrt 3 / 4 * cos (real i * pi / 3), sqrt 3 / 4 * sin (real i * pi / 3))) [0..<6] \<and>
   map distance_from_origin (get_rsl_electrodes build_all_coordinates) = replicate 6 (sqrt 3 / 4) \<and>
   verify_symmetry show build_all_coordinates = (True, SYMMETRY_VERIFIED)"
proof -
  have a: "map (\<lambda>c. (coord_x c, coord_y c)) (get_rsl_electrodes build_all_coordinates) =
     map (\<lambda>i. (sqrt 3 / 4 * cos (real i * pi / 3), sqrt 3 / 4 * sin (real i * pi / 3))) [0..<6]"
    unfolding get_rsl_electrodes_build
    by (simp add: add_rsl_points_def Let_def SQRT3_def del: upt_Suc)
  have b: "map distance_from_origin (get_rsl_electrodes build_all_coordinates) =
     replicate 6 (sqrt 3 / 4)"
    unfolding get_rsl_electrodes_build by (rule rsl_radii)
  have l: "length (get_rsl_electrodes build_all_coordinates) = 6"
    using arg_cong [OF b, of length] by simp
  have c: "verify_symmetry show build_all_coordinates = (True, SYMMETRY_VERIFIED)"
    using l b by (simp add: verify_symmetry_def Let_def numeral_nat)
  from a b c show ?thesis by blast
qed

section \<open>The integrity check of the constants\<close>

lemma zeros_not_constants_hash: "replicate 64 (CHR ''0'') \<noteq> VIDUYA_CONSTANTS_HASH"
proof
  assume "replicate 64 (CHR ''0'') = VIDUYA_CONSTANTS_HASH"
  then have "hd (replicate 64 (CHR ''0'')) = hd VIDUYA_CONSTANTS_HASH" by simp
  then show False by (simp add: VIDUYA_CONSTANTS_HASH_def)
qed

text \<open>
  C7. \<open>verify_constants_integrity\<close> reports \<open>True\<close> for every content of the table
  and every hash function, together with the hash it computed: the stored literal
  \<open>VIDUYA_CONSTANTS_HASH\<close> is never consulted, and the answer is the same when the
  computed hash is that literal and when it is not.
\<close>

theorem verify_constants_integrity_always_valid:
  "verify_constants_integrity sha256 all_coordinates stage_0 advanced =
     (True, compute_constants_hash sha256 all_coordinates stage_0 advanced) \<and>
   verify_constants_integrity (\<lambda>payload. VIDUYA_CONSTANTS_HASH) ALL_COORDINATES
       LEIV_THRESHOLD_STAGE_0 LEIV_THRESHOLD_ADVANCED = (True, VIDUYA_CONSTANTS_HASH) \<and>
   verify_constants_integrity (\<lambda>payload. replicate 64 (CHR ''0'')) ALL_COORDINATES
       LEIV_THRESHOLD_STAGE_0 LEIV_THRESHOLD_ADVANCED = (True, replicate 64 (CHR ''0'')) \<and>
   replicate 64 (CHR ''0'') \<noteq> VIDUYA_CONSTANTS_HASH"
  using zeros_not_constants_hash
  by (simp add: verify_constants_integrity_def compute_constants_hash_def)

section \<open>The upload endpoint\<close>

lemma process_evg_file_failure:
  "endswith filename ''.edf'' \<Longrightarrow>
   process tmp_path ((files st)(tmp_path \<mapsto> content)) = Inl msg \<Longrightarrow>
   process_evg_file process validate st filename content tmp_path notify_email =
     (Inl (HTTPException 500 (''Processing failed: '' @ msg)),
      st\<lparr> files := (files st)(tmp_path \<mapsto> content) \<rparr>)"
  by (simp add: process_evg_file_def Let_def del: endswith.simps)

lemma process_evg_file_success:
  "endswith filename ''.edf'' \<Longrightarrow>
   process tmp_path ((files st)(tmp_path \<mapsto> content)) = Inr result \<Longrightarrow>
   files (snd (process_evg_file process validate st filename content tmp_path notify_email))
     tmp_path = None"
  by (simp add: process_evg_file_def Let_def split: option.splits sum.splits
      del: endswith.simps)

text \<open>
  C8. The claim is that no error path of the endpoint leaves the temporary file
  behind. The code deletes the file only after processing has returned: when
  processing raises, the endpoint answers with status 500 and the file written for
  the upload is still there.
\<close>

theorem process_evg_file_leaves_temp_file:
  "process_evg_file (\<lambda>path fs. Inl ''not an EDF file'') (\<lambda>result :: string. Inr result)
       \<lparr> files = Map.empty, background_tasks = None \<rparr>
       ''scan.edf'' ''data'' ''/tmp/tmpab12.edf'' None =
     (Inl (HTTPException 500 ''Processing failed: not an EDF file''),
      \<lparr> files = [''/tmp/tmpab12.edf'' \<mapsto> ''data''], background_tasks = None \<rparr>) \<and>
   files (snd (process_evg_file (\<lambda>path fs. Inl ''not an EDF file'') (\<lambda>result :: string. Inr result)
       \<lparr> files = Map.empty, background_tasks = None \<rparr>
       ''scan.edf'' ''data'' ''/tmp/tmpab12.edf'' None)) ''/tmp/tmpab12.edf'' = Some ''data''"
  by (simp add: process_evg_file_def Let_def)

section \<open>The fusion engine\<close>

lemma severity_stage_0_early: "get_severity_level ''stage_0_early'' = 1"
  by (simp add: get_severity_level_def lower_def lower_char_def is_upper_def)

lemma severity_empty: "get_severity_level [] = 2"
  by (simp add: get_severity_level_def lower_def)

lemma prior_stage_0_early: "STAGE_PRIORS ''stage_0_early'' = Some (70 / 100)"
  by (simp add: STAGE_PRIORS_def)

lemma reliability_pos:
  "0 < (case PLATFORM_RELIABILITY p of Some w \<Rightarrow> w | None \<Rightarrow> 5 / 10)"
  by (simp add: PLATFORM_RELIABILITY_def)

lemma leiv_weight_pos: "0 < c \<Longrightarrow> 0 < calculate_leiv_weight v c"
proof -
  assume c: "0 < c"
  define m where "m = min 1 (min \<bar>v - 18 / 1000\<bar> \<bar>v - 8 / 100\<bar> * 20)"
  have "0 \<le> m" unfolding m_def by simp
  then have "0 < 5 / 10 + 5 / 10 * m" by simp
  with c have "0 < (c / 100) * (5 / 10 + 5 / 10 * m)" by (intro mult_pos_pos) simp_all
  then show ?thesis
    unfolding calculate_leiv_weight_def Let_def m_def .
qed

lemma capped: "min (99 / 100) (x :: rat) * 100 \<le> 99"
  by (simp add: min_def)

lemma concordant_contribution:
  assumes "get_severity_level (platform_stage r) = get_severity_level s"
    and "platform_stage r \<noteq> []" and "r_confidence r = Some c" and "0 \<le> c"
  shows "concordance_with_leiv (platform_contribution s r) = 1"
    and "0 \<le> contribution_to_final (platform_contribution s r)"
proof -
  show "concordance_with_leiv (platform_contribution s r) = 1"
    using assms by (simp add: platform_contribution_def calculate_concordance_def Let_def)
  have "calculate_concordance r s = 1"
    using assms by (simp add: calculate_concordance_def Let_def)
  then show "0 \<le> contribution_to_final (platform_contribution s r)"
    using assms reliability_pos [of "case r_platform r of Some p \<Rightarrow> p | None \<Rightarrow> ''unknown''"]
    by (simp add: platform_contribution_def Let_def)
qed

lemma fuse_result:
  "fuse L h v s c rs t1 t2 =
     (let u = unnormalized_posterior v s c rs;
          contributions = fst (fuse_loop s rs [] 1)
      in if u + 1 / 10 = 0 then (Inl ZeroDivisionError, h)
         else (Inr \<lparr> final_confidence = min (99 / 100) (u / (u + 1 / 10)) * 100,
                     final_diagnosis = determine_diagnosis s (min (99 / 100) (u / (u + 1 / 10))),
                     lei_v_anchor_contribution =
                       (case STAGE_PRIORS s of Some p \<Rightarrow> p | None \<Rightarrow> 5 / 10) *
                       calculate_leiv_weight v c,
                     platform_contributions = contributions,
                     prior_probability = (case STAGE_PRIORS s of Some p \<Rightarrow> p | None \<Rightarrow> 5 / 10),
                     posterior_probability = min (99 / 100) (u / (u + 1 / 10)),
                     evidence_strength =
                       (if 3 \<le> length contributions \<and>
                           list_all (\<lambda>c. 7 / 10 < concordance_with_leiv c) contributions
                        then ''strong''
                        else if 2 \<le> length contributions \<and>
                                75 / 100 < min (99 / 100) (u / (u + 1 / 10)) then ''moderate''
                        else ''weak''),
                     audit_hash_f = fst (hash_computation L h
                        [(''lei_v'', JFloat (Fin v)), (''lei_v_stage'', JStr s),
                         (''posterior'', JFloat (Fin (min (99 / 100) (u / (u + 1 / 10))))),
                         (''platforms'', JList (map (\<lambda>c. JStr (platform c)) contributions))] t1 t2),
                     citation = CITATION \<rparr>,
               snd (hash_computation L h
                        [(''lei_v'', JFloat (Fin v)), (''lei_v_stage'', JStr s),
                         (''posterior'', JFloat (Fin (min (99 / 100) (u / (u + 1 / 10))))),
                         (''platforms'', JList (map (\<lambda>c. JStr (platform c)) contributions))] t1 t2)))"
  by (simp add: fuse_def unnormalized_posterior_def Let_def split_beta)

text \<open>
  C9. For every input, \<open>fuse\<close> either raises \<open>ZeroDivisionError\<close> (exactly when the
  unnormalized product \<open>p\<close> makes \<open>p + 0.1\<close> zero) or returns a posterior equal to
  \<open>min 0.99 (p / (p + 0.1))\<close>, which is at most 0.99. Given the LEI-V stage
  \<open>stage_0_early\<close> with confidence 90 and three platform results whose stage labels
  have the severity level of \<open>stage_0_early\<close> and whose confidences are at least 80,
  \<open>fuse\<close> returns a result with \<open>evidence_strength = strong\<close>.
\<close>

theorem fuse_posterior_bound:
  "(case fst (fuse L h v s c rs t1 t2) of
      Inl e \<Rightarrow> e = ZeroDivisionError \<and> unnormalized_posterior v s c rs + 1 / 10 = 0
    | Inr res \<Rightarrow>
        posterior_probability res =
          min (99 / 100) (unnormalized_posterior v s c rs / (unnormalized_posterior v s c rs + 1 / 10)) \<and>
        posterior_probability res \<le> 99 / 100) \<and>
   (get_severity_level (platform_stage r1) = get_severity_level ''stage_0_early'' \<and>
    get_severity_level (platform_stage r2) = get_severity_level ''stage_0_early'' \<and>
    get_severity_level (platform_stage r3) = get_severity_level ''stage_0_early'' \<and>
    r_confidence r1 = Some c1 \<and> 80 \<le> c1 \<and>
    r_confidence r2 = Some c2 \<and> 80 \<le> c2 \<and>
    r_confidence r3 = Some c3 \<and> 80 \<le> c3 \<longrightarrow>
    (\<exists>res h'. fuse L h v ''stage_0_early'' 90 [r1, r2, r3] t1 t2 = (Inr res, h') \<and>
       evidence_strength res = ''strong'' \<and> posterior_probability res \<le> 99 / 100))"
proof (intro conjI impI)
  show "case fst (fuse L h v s c rs t1 t2) of
      Inl e \<Rightarrow> e = ZeroDivisionError \<and> unnormalized_posterior v s c rs + 1 / 10 = 0
    | Inr res \<Rightarrow>
        posterior_probability res =
          min (99 / 100) (unnormalized_posterior v s c rs / (unnormalized_posterior v s c rs + 1 / 10)) \<and>
        posterior_probability res \<le> 99 / 100"
    by (simp add: fuse_result Let_def capped)
next
  assume a: "get_severity_level (platform_stage r1) = get_severity_level ''stage_0_early'' \<and>
    get_severity_level (platform_stage r2) = get_severity_level ''stage_0_early'' \<and>
    get_severity_level (platform_stage r3) = get_severity_level ''stage_0_early'' \<and>
    r_confidence r1 = Some c1 \<and> 80 \<le> c1 \<and>
    r_confidence r2 = Some c2 \<and> 80 \<le> c2 \<and>
    r_confidence r3 = Some c3 \<and> 80 \<le> c3"
  let ?s = "''stage_0_early''"
  have ne: "platform_stage r \<noteq> []" if "get_severity_level (platform_stage r) = get_severity_level ?s" for r
    using that severity_stage_0_early severity_empty by auto
  note k1 = concordant_contribution [of r1 ?s c1]
  note k2 = concordant_contribution [of r2 ?s c2]
  note k3 = concordant_contribution [of r3 ?s c3]
  from a ne have c1: "concordance_with_leiv (platform_contribution ?s r1) = 1"
      "0 \<le> contribution_to_final (platform_contribution ?s r1)"
    using k1 by auto
  from a ne have c2: "concordance_with_leiv (platform_contribution ?s r2) = 1"
      "0 \<le> contribution_to_final (platform_contribution ?s r2)"
    using k2 by auto
  from a ne have c3: "concordance_with_leiv (platform_contribution ?s r3) = 1"
      "0 \<le> contribution_to_final (platform_contribution ?s r3)"
    using k3 by auto
  have loop: "fuse_loop ?s [r1, r2, r3] [] 1 =
      ([platform_contribution ?s r1, platform_contribution ?s r2, platform_contribution ?s r3],
       (1 + contribution_to_final (platform_contribution ?s r1)) *
       (1 + contribution_to_final (platform_contribution ?s r2)) *
       (1 + contribution_to_final (platform_contribution ?s r3)))"
    by (simp add: Let_def)
  have prod: "0 < (1 + contribution_to_final (platform_contribution ?s r1)) *
       (1 + contribution_to_final (platform_contribution ?s r2)) *
       (1 + contribution_to_final (platform_contribution ?s r3))"
    using c1(2) c2(2) c3(2) by (intro mult_pos_pos) linarith+
  have w: "0 < calculate_leiv_weight v 90" by (rule leiv_weight_pos) simp
  have u: "0 < unnormalized_posterior v ?s 90 [r1, r2, r3]"
    unfolding unnormalized_posterior_def Let_def prior_stage_0_early loop
    using w prod by (simp add: mult_pos_pos)
  then have nz: "unnormalized_posterior v ?s 90 [r1, r2, r3] + 1 / 10 \<noteq> 0" by linarith
  have strong: "list_all (\<lambda>c. 7 / 10 < concordance_with_leiv c) (fst (fuse_loop ?s [r1, r2, r3] [] 1))"
    unfolding loop using c1(1) c2(1) c3(1) by simp
  have len: "length (fst (fuse_loop ?s [r1, r2, r3] [] 1)) = 3"
    unfolding loop by simp
  show "\<exists>res h'. fuse L h v ?s 90 [r1, r2, r3] t1 t2 = (Inr res, h') \<and>
       evidence_strength res = ''strong'' \<and> posterior_probability res \<le> 99 / 100"
    using nz strong len by (simp add: fuse_result Let_def capped)
qed

theorem fuse_posterior_bound_witness:
  "get_severity_level (platform_stage demo_aidoc) = get_severity_level ''stage_0_early'' \<and>
   get_severity_level (platform_stage demo_tempus) = get_severity_level ''stage_0_early'' \<and>
   get_severity_level (platform_stage demo_unknown) = get_severity_level ''stage_0_early'' \<and>
   r_confidence demo_aidoc = Some 85 \<and> r_confidence demo_tempus = Some 80 \<and>
   r_confidence demo_unknown = Some 92 \<and>
   (\<exists>res h'. fuse demo_libs (AuditHasher_init None) (5 / 100) ''stage_0_early'' 90
        [demo_aidoc, demo_tempus, demo_unknown] 1 2 = (Inr res, h') \<and>
      evidence_strength res = ''strong'' \<and> posterior_probability res \<le> 99 / 100)"
proof -
  have s1: "get_severity_level (platform_stage demo_aidoc) = get_severity_level ''stage_0_early''"
    by (simp add: demo_aidoc_def platform_stage_def)
  have s2: "get_severity_level (platform_stage demo_tempus) = get_severity_level ''stage_0_early''"
    by (simp add: demo_tempus_def platform_stage_def severity_stage_0_early
        get_severity_level_def lower_def lower_char_def is_upper_def char_of_def bit_0)
  have s3: "get_severity_level (platform_stage demo_unknown) = get_severity_level ''stage_0_early''"
    by (simp add: demo_unknown_def platform_stage_def severity_stage_0_early
        get_severity_level_def lower_def lower_char_def is_upper_def)
  have c: "r_confidence demo_aidoc = Some 85" "r_confidence demo_tempus = Some 80"
      "r_confidence demo_unknown = Some 92"
    by (simp_all add: demo_aidoc_def demo_tempus_def demo_unknown_def)
  from s1 s2 s3 c
    fuse_posterior_bound [where L = demo_libs and h = "AuditHasher_init None" and v = "5 / 100"
      and s = "''stage_0_early''" and c = 90 and rs = "[demo_aidoc, demo_tempus, demo_unknown]"
      and ?t1.0 = 1 and ?t2.0 = 2 and ?r1.0 = demo_aidoc and ?r2.0 = demo_tempus
      and ?r3.0 = demo_unknown and ?c1.0 = 85 and ?c2.0 = 80 and ?c3.0 = 92]
  show ?thesis by simp
qed

section \<open>Electrode placement\<close>

text \<open>Evaluation of \<open>evalf\<close> at the coordinates of the glyph.\<close>

lemma floor_rat_neg_numeral:
  "\<lfloor>- ((numeral a :: rat) / numeral b)\<rfloor> = (- numeral a) div numeral b"
  using floor_divide_of_int_eq [where ?'a = rat, of "- numeral a" "numeral b"] by simp

lemma sqrt3_lower: "17 / 10 < sqrt 3"
  by (rule real_less_rsqrt) (simp add: power2_eq_square)

lemma sqrt3_upper: "sqrt 3 < 18 / 10"
  by (rule real_less_lsqrt) (simp_all add: power2_eq_square)

lemma round_half_even_real_eqI:
  assumes "of_int n - 1 / 2 < x" and "x < of_int n + 1 / 2"
  shows "round_half_even_real x = n"
proof -
  have "\<lfloor>x\<rfloor> = n \<or> \<lfloor>x\<rfloor> = n - 1" using assms by linarith
  then show ?thesis
  proof
    assume f: "\<lfloor>x\<rfloor> = n"
    then show ?thesis using assms by (simp add: round_half_even_real_def Let_def)
  next
    assume f: "\<lfloor>x\<rfloor> = n - 1"
    then show ?thesis using assms by (simp add: round_half_even_real_def Let_def)
  qed
qed

lemma round_half_even_real_int: "round_half_even_real (of_int n) = n"
  by (rule round_half_even_real_eqI) simp_all

text \<open>The integer nearest to \<open>sqrt 3 * 2 ^ 56\<close>.\<close>

lemma sqrt3_scaled:
  "124807413944863399 - 1 / 2 < sqrt 3 * 2 ^ 56" "sqrt 3 * 2 ^ 56 < 124807413944863399 + 1 / 2"
proof -
  have e: "sqrt 3 * 2 ^ 56 = sqrt (3 * (2 ^ 56)\<^sup>2)"
    by (simp only: real_sqrt_mult real_sqrt_abs) simp
  show "124807413944863399 - 1 / 2 < sqrt 3 * 2 ^ 56"
    unfolding e by (rule real_less_rsqrt) (simp add: power2_eq_square)
  show "sqrt 3 * 2 ^ 56 < 124807413944863399 + 1 / 2"
    unfolding e by (rule real_less_lsqrt) (simp_all add: power2_eq_square)
qed

lemma floor_log_real_r4: "floor_log_real 2 (sqrt 3 / 4) = - 2"
proof -
  have "\<lfloor>4 / sqrt 3\<rfloor> = 2"
    using sqrt3_lower sqrt3_upper by (simp add: floor_eq_iff field_simps)
  moreover have "(2 :: real) \<noteq> 4 / sqrt 3"
    using sqrt3_lower sqrt3_upper by (simp add: field_simps)
  moreover have "\<not> 1 \<le> sqrt 3 / 4" using sqrt3_upper by simp
  ultimately show ?thesis
    by (simp add: floor_log_real_def ilog_base ilog_step pow_int_def Let_def)
qed

lemma floor_log_real_r8: "floor_log_real 2 (sqrt 3 / 8) = - 3"
proof -
  have "\<lfloor>8 / sqrt 3\<rfloor> = 4"
    using sqrt3_lower sqrt3_upper by (simp add: floor_eq_iff field_simps)
  moreover have "(4 :: real) \<noteq> 8 / sqrt 3"
    using sqrt3_lower sqrt3_upper by (simp add: field_simps)
  moreover have "\<not> 1 \<le> sqrt 3 / 8" using sqrt3_upper by simp
  ultimately show ?thesis
    by (simp add: floor_log_real_def ilog_base ilog_step pow_int_def Let_def)
qed

lemma round_bits_real_eqI:
  assumes "floor_log_real 2 \<bar>x\<bar> = e" and "x \<noteq> 0"
    and "x / real_of_rat (pow_int 2 (e - 56)) = y"
    and "of_int n - 1 / 2 < y" and "y < of_int n + 1 / 2"
  shows "round_bits_real 57 x = of_int n * pow_int 2 (e - 56)"
proof -
  have r: "round_half_even_real y = n"
    using assms(4,5) by (rule round_half_even_real_eqI)
  have u: "e - (int 57 - 1) = e - 56" by simp
  show ?thesis
    unfolding round_bits_real_def Let_def assms(1) u assms(3) r using assms(2) by simp
qed

lemma pow_int_m58: "pow_int 2 (- 2 - 56) = 1 / 2 ^ 58"
  by (simp add: pow_int_def)

lemma pow_int_m59: "pow_int 2 (- 3 - 56) = 1 / 2 ^ 59"
  by (simp add: pow_int_def)

lemma round_bits_real_r4: "round_bits_real 57 (sqrt 3 / 4) = 124807413944863399 / 2 ^ 58"
proof -
  have "round_bits_real 57 (sqrt 3 / 4) = of_int 124807413944863399 * pow_int 2 (- 2 - 56)"
  proof (rule round_bits_real_eqI [where y = "sqrt 3 * 2 ^ 56"])
    show "floor_log_real 2 \<bar>sqrt 3 / 4\<bar> = - 2" using floor_log_real_r4 by simp
    show "sqrt 3 / 4 / real_of_rat (pow_int 2 (- 2 - 56)) = sqrt 3 * 2 ^ 56"
      unfolding pow_int_m58 by (simp add: of_rat_divide of_rat_power)
  qed (use sqrt3_scaled in simp_all)
  then show ?thesis unfolding pow_int_m58 by simp
qed

lemma round_bits_real_r4_neg:
  "round_bits_real 57 (- (sqrt 3 / 4)) = - (124807413944863399 / 2 ^ 58)"
proof -
  have "round_bits_real 57 (- (sqrt 3 / 4)) =
      of_int (- 124807413944863399) * pow_int 2 (- 2 - 56)"
  proof (rule round_bits_real_eqI [where y = "- (sqrt 3 * 2 ^ 56)"])
    show "floor_log_real 2 \<bar>- (sqrt 3 / 4)\<bar> = - 2" using floor_log_real_r4 by simp
    show "- (sqrt 3 / 4) / real_of_rat (pow_int 2 (- 2 - 56)) = - (sqrt 3 * 2 ^ 56)"
      unfolding pow_int_m58 by (simp add: of_rat_divide of_rat_power)
  qed (use sqrt3_scaled in simp_all)
  then show ?thesis unfolding pow_int_m58 by simp
qed

lemma round_bits_real_r8: "round_bits_real 57 (sqrt 3 / 8) = 124807413944863399 / 2 ^ 59"
proof -
  have "round_bits_real 57 (sqrt 3 / 8) = of_int 124807413944863399 * pow_int 2 (- 3 - 56)"
  proof (rule round_bits_real_eqI [where y = "sqrt 3 * 2 ^ 56"])
    show "floor_log_real 2 \<bar>sqrt 3 / 8\<bar> = - 3" using floor_log_real_r8 by simp
    show "sqrt 3 / 8 / real_of_rat (pow_int 2 (- 3 - 56)) = sqrt 3 * 2 ^ 56"
      unfolding pow_int_m59 by (simp add: of_rat_divide of_rat_power)
  qed (use sqrt3_scaled in simp_all)
  then show ?thesis unfolding pow_int_m59 by simp
qed

lemma round_bits_real_r8_neg:
  "round_bits_real 57 (- (sqrt 3 / 8)) = - (124807413944863399 / 2 ^ 59)"
proof -
  have "round_bits_real 57 (- (sqrt 3 / 8)) =
      of_int (- 124807413944863399) * pow_int 2 (- 3 - 56)"
  proof (rule round_bits_real_eqI [where y = "- (sqrt 3 * 2 ^ 56)"])
    show "floor_log_real 2 \<bar>- (sqrt 3 / 8)\<bar> = - 3" using floor_log_real_r8 by simp
    show "- (sqrt 3 / 8) / real_of_rat (pow_int 2 (- 3 - 56)) = - (sqrt 3 * 2 ^ 56)"
      unfolding pow_int_m59 by (simp add: of_rat_divide of_rat_power)
  qed (use sqrt3_scaled in simp_all)
  then show ?thesis unfolding pow_int_m59 by simp
qed

lemma round_bits_real_38: "round_bits_real 57 (3 / 8) = 3 / 8"
proof -
  have fl: "floor_log_real 2 \<bar>3 / 8\<bar> = - 2"
    by (simp add: floor_log_real_def ilog_base ilog_step pow_int_def Let_def)
  have "round_bits_real 57 (3 / 8) = of_int (3 * 2 ^ 55) * pow_int 2 (- 2 - 56)"
  proof (rule round_bits_real_eqI [where y = "of_int (3 * 2 ^ 55)"])
    show "floor_log_real 2 \<bar>3 / 8\<bar> = - 2" by (rule fl)
    show "3 / 8 / real_of_rat (pow_int 2 (- 2 - 56)) = real_of_int (3 * 2 ^ 55)"
      unfolding pow_int_m58 by (simp add: of_rat_divide of_rat_power)
  qed simp_all
  then show ?thesis unfolding pow_int_m58 by simp
qed

lemma round_bits_real_38_neg: "round_bits_real 57 (- (3 / 8)) = - (3 / 8)"
proof -
  have fl: "floor_log_real 2 \<bar>- (3 / 8)\<bar> = - 2"
    by (simp add: floor_log_real_def ilog_base ilog_step pow_int_def Let_def)
  have "round_bits_real 57 (- (3 / 8)) = of_int (- (3 * 2 ^ 55)) * pow_int 2 (- 2 - 56)"
  proof (rule round_bits_real_eqI [where y = "of_int (- (3 * 2 ^ 55))"])
    show "floor_log_real 2 \<bar>- (3 / 8)\<bar> = - 2" by (rule fl)
    show "- (3 / 8) / real_of_rat (pow_int 2 (- 2 - 56)) = real_of_int (- (3 * 2 ^ 55))"
      unfolding pow_int_m58 by (simp add: of_rat_divide of_rat_power)
  qed simp_all
  then show ?thesis unfolding pow_int_m58 by simp
qed

lemmas rat_eval = round_bits_def round_binary64_def floor_log_def ilog_base ilog_step
  pow_int_def round_half_even_def Let_def floor_rat_numeral floor_rat_neg_numeral

lemma float_evalf_r4: "float_evalf (sqrt 3 / 4) = Val (Fin (3900231685776981 / 2 ^ 53))"
  unfolding float_evalf_def evalf15_def round_bits_real_r4
  by (simp add: float_of_Float_def rat_eval)

lemma float_evalf_r4_neg: "float_evalf (- (sqrt 3 / 4)) = Val (Fin (- (3900231685776981 / 2 ^ 53)))"
  unfolding float_evalf_def evalf15_def round_bits_real_r4_neg
  by (simp add: float_of_Float_def rat_eval)

lemma float_evalf_r8: "float_evalf (sqrt 3 / 8) = Val (Fin (3900231685776981 / 2 ^ 54))"
  unfolding float_evalf_def evalf15_def round_bits_real_r8
  by (simp add: float_of_Float_def rat_eval)

lemma float_evalf_r8_neg: "float_evalf (- (sqrt 3 / 8)) = Val (Fin (- (3900231685776981 / 2 ^ 54)))"
  unfolding float_evalf_def evalf15_def round_bits_real_r8_neg
  by (simp add: float_of_Float_def rat_eval)

lemma float_evalf_38: "float_evalf (3 / 8) = Val (Fin (3 / 8))"
  unfolding float_evalf_def evalf15_def round_bits_real_38
  by (simp add: float_of_Float_def rat_eval)

lemma float_evalf_38_neg: "float_evalf (- (3 / 8)) = Val (Fin (- (3 / 8)))"
  unfolding float_evalf_def evalf15_def round_bits_real_38_neg
  by (simp add: float_of_Float_def rat_eval)

lemma float_evalf_0: "float_evalf 0 = Val (Fin 0)"
  by (simp add: float_evalf_def evalf15_def round_bits_real_def round_bits_def
      float_of_Float_def round_binary64_def)

text \<open>The six glyph points and the positions built from them.\<close>

lemma glyph_x0: "GLYPH_RADIUS * cos (real 0 * pi / 3) = sqrt 3 / 4"
  by (simp add: GLYPH_RADIUS_def)
lemma glyph_y0: "GLYPH_RADIUS * sin (real 0 * pi / 3) = 0"
  by (simp add: GLYPH_RADIUS_def)
lemma glyph_x1: "GLYPH_RADIUS * cos (real 1 * pi / 3) = sqrt 3 / 8"
  by (simp add: GLYPH_RADIUS_def cos_60)
lemma glyph_y1: "GLYPH_RADIUS * sin (real 1 * pi / 3) = 3 / 8"
  by (simp add: GLYPH_RADIUS_def sin_60)
lemma glyph_x2: "GLYPH_RADIUS * cos (real 2 * pi / 3) = - (sqrt 3 / 8)"
  by (simp add: GLYPH_RADIUS_def cos_120)
lemma glyph_y2: "GLYPH_RADIUS * sin (real 2 * pi / 3) = 3 / 8"
  by (simp add: GLYPH_RADIUS_def sin_120)
lemma glyph_x3: "GLYPH_RADIUS * cos (real 3 * pi / 3) = - (sqrt 3 / 4)"
  by (simp add: GLYPH_RADIUS_def)
lemma glyph_y3: "GLYPH_RADIUS * sin (real 3 * pi / 3) = 0"
  by (simp add: GLYPH_RADIUS_def)

lemma cos_240: "cos (4 * pi / 3) = - (1 / 2)"
proof -
  have "cos (4 * pi / 3) = cos (pi + pi / 3)" by (rule arg_cong [where f = cos]) simp
  also have "\<dots> = - cos (pi / 3)" by (rule cos_periodic_pi2)
  finally show ?thesis by (simp add: cos_60)
qed

lemma sin_240: "sin (4 * pi / 3) = - (sqrt 3 / 2)"
proof -
  have "sin (4 * pi / 3) = sin (pi + pi / 3)" by (rule arg_cong [where f = sin]) simp
  also have "\<dots> = - sin (pi / 3)" by (rule sin_periodic_pi2)
  finally show ?thesis by (simp add: sin_60)
qed

lemma cos_300: "cos (5 * pi / 3) = 1 / 2"
proof -
  have "cos (5 * pi / 3) = cos (2 * pi - pi / 3)" by (rule arg_cong [where f = cos]) simp
  also have "\<dots> = cos (pi / 3)" by (rule cos_2pi_minus)
  finally show ?thesis by (simp add: cos_60)
qed

lemma sin_300: "sin (5 * pi / 3) = - (sqrt 3 / 2)"
proof -
  have "sin (5 * pi / 3) = sin (2 * pi - pi / 3)" by (rule arg_cong [where f = sin]) simp
  also have "\<dots> = - sin (pi / 3)" by (rule sin_2pi_minus)
  finally show ?thesis by (simp add: sin_60)
qed

lemma glyph_x4: "GLYPH_RADIUS * cos (real 4 * pi / 3) = - (sqrt 3 / 8)"
  by (simp add: GLYPH_RADIUS_def cos_240)
lemma glyph_y4: "GLYPH_RADIUS * sin (real 4 * pi / 3) = - (3 / 8)"
  by (simp add: GLYPH_RADIUS_def sin_240)
lemma glyph_x5: "GLYPH_RADIUS * cos (real 5 * pi / 3) = sqrt 3 / 8"
  by (simp add: GLYPH_RADIUS_def cos_300)
lemma glyph_y5: "GLYPH_RADIUS * sin (real 5 * pi / 3) = - (3 / 8)"
  by (simp add: GLYPH_RADIUS_def sin_300)

lemma upt_6: "[0..<6] = [0, 1, 2, 3, 4, 5]"
  by (simp add: upt_rec numeral_nat)

lemma stored_of_position:
  assumes "get_scale_factor p = Inr scale"
  shows "\<exists>e. electrode_position p i = Inr e \<and>
    (electrode_number e, stored_cm e) =
      (i + 1, py_round2 (f_mul (float_evalf (GLYPH_RADIUS * cos (real i * pi / 3))) scale),
              py_round2 (f_mul (float_evalf (GLYPH_RADIUS * sin (real i * pi / 3))) scale))"
  using assms by (simp add: electrode_position_def Let_def stored_cm_def)

lemma stored_for_scale:
  assumes "get_scale_factor p = Inr scale"
  shows "map_sum id (map (\<lambda>e. (electrode_number e, stored_cm e))) (build_electrode_positions p) =
    Inr [(1, py_round2 (f_mul (float_evalf (sqrt 3 / 4)) scale), py_round2 (f_mul (float_evalf 0) scale)),
         (2, py_round2 (f_mul (float_evalf (sqrt 3 / 8)) scale), py_round2 (f_mul (float_evalf (3 / 8)) scale)),
         (3, py_round2 (f_mul (float_evalf (- (sqrt 3 / 8))) scale), py_round2 (f_mul (float_evalf (3 / 8)) scale)),
         (4, py_round2 (f_mul (float_evalf (- (sqrt 3 / 4))) scale), py_round2 (f_mul (float_evalf 0) scale)),
         (5, py_round2 (f_mul (float_evalf (- (sqrt 3 / 8))) scale), py_round2 (f_mul (float_evalf (- (3 / 8))) scale)),
         (6, py_round2 (f_mul (float_evalf (sqrt 3 / 8)) scale), py_round2 (f_mul (float_evalf (- (3 / 8))) scale))]"
proof -
  note s = stored_of_position [OF assms]
  obtain a0 where a0: "electrode_position p 0 = Inr a0" "(electrode_number a0, stored_cm a0) =
      (1, py_round2 (f_mul (float_evalf (sqrt 3 / 4)) scale), py_round2 (f_mul (float_evalf 0) scale))"
    using s [of 0] unfolding glyph_x0 glyph_y0 by auto
  obtain a1 where a1: "electrode_position p 1 = Inr a1" "(electrode_number a1, stored_cm a1) =
      (2, py_round2 (f_mul (float_evalf (sqrt 3 / 8)) scale), py_round2 (f_mul (float_evalf (3 / 8)) scale))"
    using s [of 1] unfolding glyph_x1 glyph_y1 by auto
  obtain a2 where a2: "electrode_position p 2 = Inr a2" "(electrode_number a2, stored_cm a2) =
      (3, py_round2 (f_mul (float_evalf (- (sqrt 3 / 8))) scale), py_round2 (f_mul (float_evalf (3 / 8)) scale))"
    using s [of 2] unfolding glyph_x2 glyph_y2 by auto
  obtain a3 where a3: "electrode_position p 3 = Inr a3" "(electrode_number a3, stored_cm a3) =
      (4, py_round2 (f_mul (float_evalf (- (sqrt 3 / 4))) scale), py_round2 (f_mul (float_evalf 0) scale))"
    using s [of 3] unfolding glyph_x3 glyph_y3 by auto
  obtain a4 where a4: "electrode_position p 4 = Inr a4" "(electrode_number a4, stored_cm a4) =
      (5, py_round2 (f_mul (float_evalf (- (sqrt 3 / 8))) scale), py_round2 (f_mul (float_evalf (- (3 / 8))) scale))"
    using s [of 4] unfolding glyph_x4 glyph_y4 by auto
  obtain a5 where a5: "electrode_position p 5 = Inr a5" "(electrode_number a5, stored_cm a5) =
      (6, py_round2 (f_mul (float_evalf (sqrt 3 / 8)) scale), py_round2 (f_mul (float_evalf (- (3 / 8))) scale))"
    using s [of 5] unfolding glyph_x5 glyph_y5 by auto
  have b: "build_electrode_positions p = Inr [a0, a1, a2, a3, a4, a5]"
    unfolding build_electrode_positions_def upt_6 using a0(1) a1(1) a2(1) a3(1) a4(1) a5(1) by simp
  show ?thesis
    unfolding b using a0(2) a1(2) a2(2) a3(2) a4(2) a5(2) by simp
qed

lemma evalf15_radius: "evalf15 (sqrt 3 / 4) = 3900231685776981 / 2 ^ 53"
  unfolding evalf15_def round_bits_real_r4 by (simp add: rat_eval)

lemma scale_default: "get_scale_factor None = Inr (Val (Fin (7800463371553963 / 2 ^ 47)))"
  unfolding get_scale_factor_def DEFAULT_SCALE_FACTOR_def GLYPH_RADIUS_def float_evalf_r4
  by (simp add: f64_lit_def rat_eval)

lemma scale_patient_24:
  "get_scale_factor (Some (a\<lparr>inter_asis_distance_cm := f64_lit 24\<rparr>)) =
     Inr (Val (Fin (7800463371553963 / 2 ^ 48)))"
  unfolding get_scale_factor_def GLYPH_RADIUS_def evalf15_radius
  by (simp add: f64_lit_def float_of_Float_def rat_eval)

lemma stored_default:
  "map_sum id (map (\<lambda>e. (electrode_number e, stored_cm e))) (build_electrode_positions None) =
     Inr [(1, f64_lit 24, f64_lit 0), (2, f64_lit 12, f64_lit (2078 / 100)),
          (3, f64_lit (- 12), f64_lit (2078 / 100)), (4, f64_lit (- 24), f64_lit 0),
          (5, f64_lit (- 12), f64_lit (- (2078 / 100))), (6, f64_lit 12, f64_lit (- (2078 / 100)))]"
  unfolding stored_for_scale [OF scale_default] float_evalf_r4 float_evalf_r4_neg float_evalf_r8
    float_evalf_r8_neg float_evalf_38 float_evalf_38_neg float_evalf_0
  by (simp add: f64_lit_def rat_eval)

lemma stored_patient_24:
  "map_sum id (map (\<lambda>e. (electrode_number e, stored_cm e)))
      (build_electrode_positions (Some (a\<lparr>inter_asis_distance_cm := f64_lit 24\<rparr>))) =
     Inr [(1, f64_lit 12, f64_lit 0), (2, f64_lit 6, f64_lit (1039 / 100)),
          (3, f64_lit (- 6), f64_lit (1039 / 100)), (4, f64_lit (- 12), f64_lit 0),
          (5, f64_lit (- 6), f64_lit (- (1039 / 100))), (6, f64_lit 6, f64_lit (- (1039 / 100)))]"
  unfolding stored_for_scale [OF scale_patient_24] float_evalf_r4 float_evalf_r4_neg float_evalf_r8
    float_evalf_r8_neg float_evalf_38 float_evalf_38_neg float_evalf_0
  by (simp add: f64_lit_def rat_eval)

lemma distances_of_stored:
  "map_sum id (map (\<lambda>e. (electrode_number e, stored_cm e))) X = Inr L \<Longrightarrow>
   map_sum id (map (\<lambda>e. cm_distance (stored_cm e))) X = Inr (map (\<lambda>q. cm_distance (snd q)) L)"
  by (cases X) auto

lemma f64_lit_values:
  "f64_lit 0 = Val (Fin 0)" "f64_lit 6 = Val (Fin 6)" "f64_lit (- 6) = Val (Fin (- 6))"
  "f64_lit 12 = Val (Fin 12)" "f64_lit (- 12) = Val (Fin (- 12))"
  "f64_lit 24 = Val (Fin 24)" "f64_lit (- 24) = Val (Fin (- 24))"
  "f64_lit (2078 / 100) = Val (Fin (731131252005929 / 2 ^ 45))"
  "f64_lit (- (2078 / 100)) = Val (Fin (- (731131252005929 / 2 ^ 45)))"
  "f64_lit (1039 / 100) = Val (Fin (731131252005929 / 2 ^ 46))"
  "f64_lit (- (1039 / 100)) = Val (Fin (- (731131252005929 / 2 ^ 46)))"
  by (simp_all add: f64_lit_def rat_eval)

lemma distances_default:
  "map_sum id (map (\<lambda>e. cm_distance (stored_cm e))) (build_electrode_positions None) =
     Inr [Some 24, Some (sqrt (12\<^sup>2 + (731131252005929 / 2 ^ 45)\<^sup>2)),
          Some (sqrt (12\<^sup>2 + (731131252005929 / 2 ^ 45)\<^sup>2)), Some 24,
          Some (sqrt (12\<^sup>2 + (731131252005929 / 2 ^ 45)\<^sup>2)),
          Some (sqrt (12\<^sup>2 + (731131252005929 / 2 ^ 45)\<^sup>2))]"
  using distances_of_stored [OF stored_default] unfolding f64_lit_values
  by (simp add: of_rat_divide of_rat_power of_rat_minus)

lemma distances_patient_24:
  "map_sum id (map (\<lambda>e. cm_distance (stored_cm e)))
      (build_electrode_positions (Some (a\<lparr>inter_asis_distance_cm := f64_lit 24\<rparr>))) =
     Inr [Some 12, Some (sqrt (6\<^sup>2 + (731131252005929 / 2 ^ 46)\<^sup>2)),
          Some (sqrt (6\<^sup>2 + (731131252005929 / 2 ^ 46)\<^sup>2)), Some 12,
          Some (sqrt (6\<^sup>2 + (731131252005929 / 2 ^ 46)\<^sup>2)),
          Some (sqrt (6\<^sup>2 + (731131252005929 / 2 ^ 46)\<^sup>2))]"
  using distances_of_stored [OF stored_patient_24, of a] unfolding f64_lit_values
  by (simp add: of_rat_divide of_rat_power of_rat_minus)

lemma off_axis_default:
  "2399 / 100 < sqrt (12\<^sup>2 + (731131252005929 / 2 ^ 45)\<^sup>2)"
  "sqrt (12\<^sup>2 + (731131252005929 / 2 ^ 45)\<^sup>2) < 24"
proof -
  show "2399 / 100 < sqrt (12\<^sup>2 + (731131252005929 / 2 ^ 45)\<^sup>2)"
    by (rule real_less_rsqrt) (simp add: power2_eq_square)
  show "sqrt (12\<^sup>2 + (731131252005929 / 2 ^ 45)\<^sup>2) < 24"
    by (rule real_less_lsqrt) (simp_all add: power2_eq_square)
qed

lemma off_axis_patient:
  "1199 / 100 < sqrt (6\<^sup>2 + (731131252005929 / 2 ^ 46)\<^sup>2)"
  "sqrt (6\<^sup>2 + (731131252005929 / 2 ^ 46)\<^sup>2) < 12"
proof -
  show "1199 / 100 < sqrt (6\<^sup>2 + (731131252005929 / 2 ^ 46)\<^sup>2)"
    by (rule real_less_rsqrt) (simp add: power2_eq_square)
  show "sqrt (6\<^sup>2 + (731131252005929 / 2 ^ 46)\<^sup>2) < 12"
    by (rule real_less_lsqrt) (simp_all add: power2_eq_square)
qed

text \<open>
  The second electrode of the default placement is stored at \<open>(12.0, 20.78)\<close>, which
  is less than 24 cm from the centre: the six stored distances are not all 24.
\<close>

theorem stored_distance_counterexample:
  "map_sum id (\<lambda>es. cm_distance (stored_cm (es ! 1))) (build_electrode_positions None) =
     Inr (Some (sqrt (12\<^sup>2 + (731131252005929 / 2 ^ 45)\<^sup>2))) \<and>
   sqrt (12\<^sup>2 + (731131252005929 / 2 ^ 45)\<^sup>2) < (24 :: real) \<and>
   map_sum id (map (\<lambda>e. cm_distance (stored_cm e))) (build_electrode_positions None) \<noteq>
     Inr (replicate 6 (Some 24))"
proof -
  let ?d = "sqrt (12\<^sup>2 + (731131252005929 / 2 ^ 45)\<^sup>2) :: real"
  have lt: "?d < 24" by (rule off_axis_default(2))
  obtain es where es: "build_electrode_positions None = Inr es"
    using distances_default by (cases "build_electrode_positions None") auto
  have m: "map (\<lambda>e. cm_distance (stored_cm e)) es =
      [Some 24, Some ?d, Some ?d, Some 24, Some ?d, Some ?d]"
    using distances_default unfolding es by simp
  have l: "length es = 6" using arg_cong [OF m, of length] by simp
  have "map (\<lambda>e. cm_distance (stored_cm e)) es ! 1 = cm_distance (stored_cm (es ! 1))"
    using l by (intro nth_map) simp
  then have one: "cm_distance (stored_cm (es ! 1)) = Some ?d" unfolding m by simp
  have ne: "[Some 24, Some ?d, Some ?d, Some 24, Some ?d, Some ?d] \<noteq> replicate 6 (Some 24)"
    using lt by (simp add: numeral_nat)
  show ?thesis unfolding es using one lt ne m by simp
qed

text \<open>
  C10, as amended. The two branches of the scale factor differ by a factor of 2:
  without patient measurements the scale is 24 divided by the float of the glyph
  radius, and for a patient whose inter-ASIS distance is the same 24 cm it is 24
  divided by twice that float, exactly half. The calculator stores six electrodes,
  numbered 1 to 6, at \<open>(\<plusminus>24, 0)\<close> and \<open>(\<plusminus>12, \<plusminus>20.78)\<close> in the first case and at
  \<open>(\<plusminus>12, 0)\<close> and \<open>(\<plusminus>6, \<plusminus>10.39)\<close> in the second. Electrodes 1 and 4 are
  exactly 24 cm, respectively 12 cm, from the centre; the other four, whose second
  coordinate has been rounded to two decimals, are less than 0.01 cm short of it.
\<close>

theorem scaling_branches_differ_by_two:
  "get_scale_factor None = Inr (Val (Fin (7800463371553963 / 2 ^ 47))) \<and>
   get_scale_factor (Some (a\<lparr>inter_asis_distance_cm := f64_lit 24\<rparr>)) =
     Inr (Val (Fin (7800463371553963 / 2 ^ 48))) \<and>
   map_sum id (map (\<lambda>e. (electrode_number e, stored_cm e))) (build_electrode_positions None) =
     Inr [(1, f64_lit 24, f64_lit 0), (2, f64_lit 12, f64_lit (2078 / 100)),
          (3, f64_lit (- 12), f64_lit (2078 / 100)), (4, f64_lit (- 24), f64_lit 0),
          (5, f64_lit (- 12), f64_lit (- (2078 / 100))), (6, f64_lit 12, f64_lit (- (2078 / 100)))] \<and>
   map_sum id (map (\<lambda>e. (electrode_number e, stored_cm e)))
      (build_electrode_positions (Some (a\<lparr>inter_asis_distance_cm := f64_lit 24\<rparr>))) =
     Inr [(1, f64_lit 12, f64_lit 0), (2, f64_lit 6, f64_lit (1039 / 100)),
          (3, f64_lit (- 6), f64_lit (1039 / 100)), (4, f64_lit (- 12), f64_lit 0),
          (5, f64_lit (- 6), f64_lit (- (1039 / 100))), (6, f64_lit 6, f64_lit (- (1039 / 100)))] \<and>
   map_sum id (map (\<lambda>e. cm_distance (stored_cm e))) (build_electrode_positions None) =
     Inr [Some 24, Some (sqrt (12\<^sup>2 + (731131252005929 / 2 ^ 45)\<^sup>2)),
          Some (sqrt (12\<^sup>2 + (731131252005929 / 2 ^ 45)\<^sup>2)), Some 24,
          Some (sqrt (12\<^sup>2 + (731131252005929 / 2 ^ 45)\<^sup>2)),
          Some (sqrt (12\<^sup>2 + (731131252005929 / 2 ^ 45)\<^sup>2))] \<and>
   map_sum id (map (\<lambda>e. cm_distance (stored_cm e)))
      (build_electrode_positions (Some (a\<lparr>inter_asis_distance_cm := f64_lit 24\<rparr>))) =
     Inr [Some 12, Some (sqrt (6\<^sup>2 + (731131252005929 / 2 ^ 46)\<^sup>2)),
          Some (sqrt (6\<^sup>2 + (731131252005929 / 2 ^ 46)\<^sup>2)), Some 12,
          Some (sqrt (6\<^sup>2 + (731131252005929 / 2 ^ 46)\<^sup>2)),
          Some (sqrt (6\<^sup>2 + (731131252005929 / 2 ^ 46)\<^sup>2))] \<and>
   2399 / 100 < sqrt (12\<^sup>2 + (731131252005929 / 2 ^ 45)\<^sup>2) \<and>
   sqrt (12\<^sup>2 + (731131252005929 / 2 ^ 45)\<^sup>2) < (24 :: real) \<and>
   1199 / 100 < sqrt (6\<^sup>2 + (731131252005929 / 2 ^ 46)\<^sup>2) \<and>
   sqrt (6\<^sup>2 + (731131252005929 / 2 ^ 46)\<^sup>2) < (12 :: real)"
  by (intro conjI scale_default scale_patient_24 stored_default stored_patient_24
      distances_default distances_patient_24 off_axis_default off_axis_patient)

end
